theory Spec2Isabelle
  imports Complex_Main "HOL-Library.Word" "HOL-Library.Stream"
begin

section \<open>Asteroids: the simulation core of main.c\<close>

text \<open>
  The development embeds the game logic of \<^verbatim>\<open>main.c\<close>: the entity pools, the
  wrap of coordinates, the spawning of asteroids and bullets, the input mapper with
  its fire cooldown, the tick \<^verbatim>\<open>update_game\<close>, the level setup and the main loop.

  Conventions of the embedding.
  \<^item> A C \<^verbatim>\<open>float\<close> is read as a real number: \<open>+\<close>, \<open>*\<close> and \<open><\<close> are those of
    \<^typ>\<open>real\<close>, \<^verbatim>\<open>hypotf\<close>, \<^verbatim>\<open>cosf\<close> and \<^verbatim>\<open>sinf\<close> are the exact functions.
    Rounding is not modelled.
  \<^item> A C \<^verbatim>\<open>int\<close> is read as an integer; the counters of the game (score, lives,
    level, timers) are assumed to stay inside the range of \<^verbatim>\<open>int\<close>, where the C
    program has no defined behaviour otherwise. The \<^verbatim>\<open>Uint32\<close> of the millisecond
    clock is a 32-bit word: its subtraction wraps.
  \<^item> The arrays \<^verbatim>\<open>g_bullets[MAX_BULLETS]\<close> and \<^verbatim>\<open>g_asteroids[MAX_ASTEROIDS]\<close>
    are functions from the index to the slot; every loop of the program runs over
    the indices below the capacity and so does every loop of the model.
  \<^item> \<^verbatim>\<open>rand()\<close> reads the next element of a stream of naturals kept in the state.
  \<^item> The calls to the mixer change no game variable; they are appended to a log.
  \<^item> Rendering reads the state and changes nothing; it is left out.
\<close>

subsection \<open>Constants\<close>

definition SCREEN_WIDTH :: int where [simp]: "SCREEN_WIDTH = 800"
definition SCREEN_HEIGHT :: int where [simp]: "SCREEN_HEIGHT = 600"
definition SHIP_SIZE :: real where [simp]: "SHIP_SIZE = 20"
definition SHIP_ACCELERATION :: real where [simp]: "SHIP_ACCELERATION = 1 / 10"
definition SHIP_TURN_SPEED :: real where [simp]: "SHIP_TURN_SPEED = 5"
definition SHIP_FRICTION :: real where [simp]: "SHIP_FRICTION = 995 / 1000"
definition BULLET_SPEED :: real where [simp]: "BULLET_SPEED = 7"
definition MAX_BULLETS :: nat where [simp]: "MAX_BULLETS = 10"
definition MAX_ASTEROIDS :: nat where [simp]: "MAX_ASTEROIDS = 50"
definition RESPAWN_INVINCIBILITY :: int where [simp]: "RESPAWN_INVINCIBILITY = 180"
definition M_PI :: real where [simp]: "M_PI = pi"

subsection \<open>Library functions\<close>

definition hypotf :: "real \<Rightarrow> real \<Rightarrow> real" where
  "hypotf a b = sqrt (a\<^sup>2 + b\<^sup>2)"

definition cosf :: "real \<Rightarrow> real" where
  "cosf a = cos a"

definition sinf :: "real \<Rightarrow> real" where
  "sinf a = sin a"

subsection \<open>Structs and globals\<close>

record Ship =
  ship_x :: real
  ship_y :: real
  ship_vx :: real
  ship_vy :: real
  ship_angle :: real
  ship_alive :: int
  ship_invincible_timer :: int

record Asteroid =
  ast_x :: real
  ast_y :: real
  ast_vx :: real
  ast_vy :: real
  ast_angle :: real
  ast_rotation_speed :: real
  ast_size :: int
  ast_num_vertices :: int
  ast_vertices :: "nat \<Rightarrow> real"
  ast_alive :: int

record Bullet =
  bul_x :: real
  bul_y :: real
  bul_vx :: real
  bul_vy :: real
  bul_lifetime :: int
  bul_active :: int

datatype sound = Shoot | Thrust | BangLarge | BangMedium | BangSmall

text \<open>A call to the mixer: \<^verbatim>\<open>Mix_PlayChannel(channel, chunk, loops)\<close> or
  \<^verbatim>\<open>Mix_HaltChannel(channel)\<close>.\<close>

datatype mix_call = PlayChannel int sound int | HaltChannel int

text \<open>
  The globals of the program. A sound field is \<open>True\<close> when the chunk pointer is not
  \<^verbatim>\<open>NULL\<close>. \<open>last_shot\<close> is the static local of \<^verbatim>\<open>handle_input\<close>. \<open>rand_src\<close> holds
  the values the coming calls of \<^verbatim>\<open>rand()\<close> return, \<open>mixer\<close> the calls made to the
  mixer, the latest first.
\<close>

record game =
  g_ship :: Ship
  g_bullets :: "nat \<Rightarrow> Bullet"
  g_asteroids :: "nat \<Rightarrow> Asteroid"
  g_score :: int
  g_lives :: int
  g_level :: int
  g_game_over :: int
  g_shoot_sound :: bool
  g_thrust_sound :: bool
  g_bang_large_sound :: bool
  g_bang_medium_sound :: bool
  g_bang_small_sound :: bool
  last_shot :: "32 word"
  rand_src :: "nat stream"
  mixer :: "mix_call list"

definition rand :: "game \<Rightarrow> nat \<times> game" where
  "rand s = (shd (rand_src s), s\<lparr>rand_src := stl (rand_src s)\<rparr>)"

definition Mix_PlayChannel :: "int \<Rightarrow> sound \<Rightarrow> int \<Rightarrow> game \<Rightarrow> game" where
  "Mix_PlayChannel channel chunk loops s = s\<lparr>mixer := PlayChannel channel chunk loops # mixer s\<rparr>"

definition Mix_HaltChannel :: "int \<Rightarrow> game \<Rightarrow> game" where
  "Mix_HaltChannel channel s = s\<lparr>mixer := HaltChannel channel # mixer s\<rparr>"

subsection \<open>wrap_coordinates\<close>

text \<open>The two pointers of the C function are the two components of a pair.\<close>

definition wrap_coordinates :: "real \<times> real \<Rightarrow> real \<times> real" where
  "wrap_coordinates p =
     (case p of (x, y) \<Rightarrow>
        let x = (if x < 0 then x + real_of_int SCREEN_WIDTH else x);
            x = (if x > real_of_int SCREEN_WIDTH then x - real_of_int SCREEN_WIDTH else x);
            y = (if y < 0 then y + real_of_int SCREEN_HEIGHT else y);
            y = (if y > real_of_int SCREEN_HEIGHT then y - real_of_int SCREEN_HEIGHT else y)
        in (x, y))"

subsection \<open>spawn_asteroid\<close>

text \<open>
  The vertex loop of \<^verbatim>\<open>spawn_asteroid\<close>, one iteration: vertex \<open>j\<close> of the asteroid in
  slot \<open>i\<close>. One call of \<^verbatim>\<open>rand()\<close>.
\<close>

definition spawn_vertex :: "nat \<Rightarrow> int \<Rightarrow> nat \<Rightarrow> game \<Rightarrow> game" where
  "spawn_vertex i sz j s =
     (let a = g_asteroids s i;
          angle = real j / real_of_int (ast_num_vertices a) * 2 * M_PI;
          (r, s) = rand s;
          radius_variance = real_of_int (sz * 8 + int r mod (sz * 4));
          a = a\<lparr>ast_vertices := (ast_vertices a)(j * 2 := radius_variance * cosf angle)\<rparr>;
          a = a\<lparr>ast_vertices := (ast_vertices a)(j * 2 + 1 := radius_variance * sinf angle)\<rparr>
      in s\<lparr>g_asteroids := (g_asteroids s)(i := a)\<rparr>)"

text \<open>
  The scan for the first slot that is not alive is \<open>find\<close> over the indices; the
  body of the \<^verbatim>\<open>if\<close> runs on that slot and returns. When no slot is free the loop
  ends and nothing was written.
\<close>

definition spawn_asteroid :: "real \<Rightarrow> real \<Rightarrow> int \<Rightarrow> game \<Rightarrow> game" where
  "spawn_asteroid x y sz s =
     (if sz < 1 then s
      else case find (\<lambda>i. ast_alive (g_asteroids s i) = 0) [0..<MAX_ASTEROIDS] of
        None \<Rightarrow> s
      | Some i \<Rightarrow>
          let (r1, s) = rand s;
              (r2, s) = rand s;
              (r3, s) = rand s;
              (r4, s) = rand s;
              a = (g_asteroids s i)
                \<lparr>ast_alive := 1,
                 ast_x := x, ast_y := y,
                 ast_vx := real_of_int (int r1 mod 200 - 100) / 100,
                 ast_vy := real_of_int (int r2 mod 200 - 100) / 100,
                 ast_angle := 0,
                 ast_rotation_speed := real_of_int (int r3 mod 100 - 50) / 50,
                 ast_size := sz,
                 ast_num_vertices := 8 + int r4 mod 9\<rparr>;
              s = s\<lparr>g_asteroids := (g_asteroids s)(i := a)\<rparr>
          in fold (spawn_vertex i sz) [0..<nat (ast_num_vertices a)] s)"

subsection \<open>fire_bullet\<close>

definition fire_bullet :: "game \<Rightarrow> game" where
  "fire_bullet s =
     (if ship_alive (g_ship s) = 0 then s
      else case find (\<lambda>i. bul_active (g_bullets s i) = 0) [0..<MAX_BULLETS] of
        None \<Rightarrow> s
      | Some i \<Rightarrow>
          let sh = g_ship s;
              b = (g_bullets s i)
                \<lparr>bul_active := 1,
                 bul_x := ship_x sh + SHIP_SIZE / 2 * cosf (ship_angle sh * M_PI / 180),
                 bul_y := ship_y sh + SHIP_SIZE / 2 * sinf (ship_angle sh * M_PI / 180),
                 bul_vx := ship_vx sh + BULLET_SPEED * cosf (ship_angle sh * M_PI / 180),
                 bul_vy := ship_vy sh + BULLET_SPEED * sinf (ship_angle sh * M_PI / 180),
                 bul_lifetime := 60\<rparr>;
              s = s\<lparr>g_bullets := (g_bullets s)(i := b)\<rparr>
          in if g_shoot_sound s then Mix_PlayChannel (- 1) Shoot 0 s else s)"

subsection \<open>handle_input\<close>

text \<open>
  What one call of \<^verbatim>\<open>handle_input\<close> reads from SDL: whether one of the polled events
  was \<^verbatim>\<open>SDL_QUIT\<close>, the keyboard state, the answer of \<^verbatim>\<open>Mix_Playing(1)\<close>, and the
  values of its two calls of \<^verbatim>\<open>SDL_GetTicks()\<close>: the one compared with \<open>last_shot\<close>
  and the one stored in it.
\<close>

record input =
  quit_event :: bool
  key_left :: bool
  key_right :: bool
  key_up :: bool
  key_space :: bool
  mix_playing1 :: bool
  ticks_test :: "32 word"
  ticks_store :: "32 word"

text \<open>The pair is \<^verbatim>\<open>*is_running\<close> and the globals.\<close>

definition handle_input :: "input \<Rightarrow> int \<times> game \<Rightarrow> int \<times> game" where
  "handle_input inp st =
     (case st of (is_running, s) \<Rightarrow>
        let is_running = (if quit_event inp then 0 else is_running)
        in if ship_alive (g_ship s) = 0 then (is_running, s)
           else
             let sh = g_ship s;
                 sh = (if key_left inp then sh\<lparr>ship_angle := ship_angle sh - SHIP_TURN_SPEED\<rparr> else sh);
                 sh = (if key_right inp then sh\<lparr>ship_angle := ship_angle sh + SHIP_TURN_SPEED\<rparr> else sh);
                 s = s\<lparr>g_ship := sh\<rparr>;
                 s = (if key_up inp then
                        let sh = g_ship s;
                            sh = sh\<lparr>ship_vx := ship_vx sh + SHIP_ACCELERATION * cosf (ship_angle sh * M_PI / 180)\<rparr>;
                            sh = sh\<lparr>ship_vy := ship_vy sh + SHIP_ACCELERATION * sinf (ship_angle sh * M_PI / 180)\<rparr>;
                            s = s\<lparr>g_ship := sh\<rparr>
                        in if g_thrust_sound s \<and> \<not> mix_playing1 inp
                           then Mix_PlayChannel 1 Thrust (- 1) s else s
                      else Mix_HaltChannel 1 s);
                 s = (if key_space inp then
                        if ticks_test inp - last_shot s > 200
                        then (fire_bullet s)\<lparr>last_shot := ticks_store inp\<rparr>
                        else s
                      else s)
             in (is_running, s))"

subsection \<open>setup_level\<close>

text \<open>
  The \<^verbatim>\<open>do ... while\<close> of \<^verbatim>\<open>setup_level\<close>: it draws a position on the border
  strip around the screen and draws again while the position is nearer than 200 to
  the ship. Nothing in the loop bounds the number of rounds, so the model is a partial
  function: \<open>None\<close> is the loop that never ends.
\<close>

partial_function (option) pick_position :: "game \<Rightarrow> (real \<times> real \<times> game) option" where
  "pick_position s =
     (let (r1, s) = rand s;
          (r2, s) = rand s;
          (r3, s) = rand s;
          x = (if r1 mod 2 = 0
               then (if r2 mod 2 = 0 then 0 - SHIP_SIZE * 4
                     else real_of_int SCREEN_WIDTH + SHIP_SIZE * 4)
               else real_of_int (int r2 mod SCREEN_WIDTH));
          y = (if r1 mod 2 = 0
               then real_of_int (int r3 mod SCREEN_HEIGHT)
               else (if r3 mod 2 = 0 then 0 - SHIP_SIZE * 4
                     else real_of_int SCREEN_HEIGHT + SHIP_SIZE * 4))
      in if hypotf (x - ship_x (g_ship s)) (y - ship_y (g_ship s)) < 200
         then pick_position s
         else Some (x, y, s))"

text \<open>
  The loop \<^verbatim>\<open>for (i = 0; i < g_level + 3; i++)\<close>; the argument is the number of
  rounds left. \<^verbatim>\<open>g_level\<close> is not written in the loop.
\<close>

fun spawn_level_asteroids :: "nat \<Rightarrow> game \<Rightarrow> game option" where
  "spawn_level_asteroids 0 s = Some s"
| "spawn_level_asteroids (Suc n) s =
     (case pick_position s of
        None \<Rightarrow> None
      | Some (x, y, s) \<Rightarrow> spawn_level_asteroids n (spawn_asteroid x y 3 s))"

definition clear_bullet :: "nat \<Rightarrow> game \<Rightarrow> game" where
  "clear_bullet i s = s\<lparr>g_bullets := (g_bullets s)(i := (g_bullets s i)\<lparr>bul_active := 0\<rparr>)\<rparr>"

definition clear_asteroid :: "nat \<Rightarrow> game \<Rightarrow> game" where
  "clear_asteroid i s = s\<lparr>g_asteroids := (g_asteroids s)(i := (g_asteroids s i)\<lparr>ast_alive := 0\<rparr>)\<rparr>"

definition respawn_ship :: Ship where
  "respawn_ship =
     \<lparr>ship_x = real_of_int SCREEN_WIDTH / 2, ship_y = real_of_int SCREEN_HEIGHT / 2,
      ship_vx = 0, ship_vy = 0, ship_angle = - 90, ship_alive = 1,
      ship_invincible_timer = RESPAWN_INVINCIBILITY\<rparr>"

definition setup_level :: "game \<Rightarrow> game option" where
  "setup_level s =
     (let s = s\<lparr>g_ship := respawn_ship\<rparr>;
          s = fold clear_bullet [0..<MAX_BULLETS] s;
          s = fold clear_asteroid [0..<MAX_ASTEROIDS] s
      in spawn_level_asteroids (nat (g_level s + 3)) s)"

subsection \<open>update_game\<close>

definition update_ship :: "game \<Rightarrow> game" where
  "update_ship s =
     (if ship_alive (g_ship s) \<noteq> 0 then
        let sh = g_ship s;
            sh = sh\<lparr>ship_x := ship_x sh + ship_vx sh\<rparr>;
            sh = sh\<lparr>ship_y := ship_y sh + ship_vy sh\<rparr>;
            sh = sh\<lparr>ship_vx := ship_vx sh * SHIP_FRICTION\<rparr>;
            sh = sh\<lparr>ship_vy := ship_vy sh * SHIP_FRICTION\<rparr>;
            (wx, wy) = wrap_coordinates (ship_x sh, ship_y sh);
            sh = sh\<lparr>ship_x := wx, ship_y := wy\<rparr>;
            sh = (if ship_invincible_timer sh > 0
                  then sh\<lparr>ship_invincible_timer := ship_invincible_timer sh - 1\<rparr> else sh)
        in s\<lparr>g_ship := sh\<rparr>
      else s)"

definition update_bullet :: "nat \<Rightarrow> game \<Rightarrow> game" where
  "update_bullet i s =
     (if bul_active (g_bullets s i) \<noteq> 0 then
        let b = g_bullets s i;
            b = b\<lparr>bul_x := bul_x b + bul_vx b\<rparr>;
            b = b\<lparr>bul_y := bul_y b + bul_vy b\<rparr>;
            (wx, wy) = wrap_coordinates (bul_x b, bul_y b);
            b = b\<lparr>bul_x := wx, bul_y := wy\<rparr>;
            b = b\<lparr>bul_lifetime := bul_lifetime b - 1\<rparr>;
            b = (if bul_lifetime b \<le> 0 then b\<lparr>bul_active := 0\<rparr> else b)
        in s\<lparr>g_bullets := (g_bullets s)(i := b)\<rparr>
      else s)"

text \<open>
  The body of \<^verbatim>\<open>if (dist < g_asteroids[i].size * 10)\<close>: bullet \<open>j\<close> has hit asteroid
  \<open>i\<close>. Every \<^verbatim>\<open>g_asteroids[i]\<close> of the C text is read from the globals at the moment
  the statement runs, so after a call of \<^verbatim>\<open>spawn_asteroid\<close> it is read from the
  array that call has left.
\<close>

definition bullet_hit :: "nat \<Rightarrow> nat \<Rightarrow> game \<Rightarrow> game" where
  "bullet_hit i j s =
     (let s = s\<lparr>g_asteroids := (g_asteroids s)(i := (g_asteroids s i)\<lparr>ast_alive := 0\<rparr>)\<rparr>;
          s = s\<lparr>g_bullets := (g_bullets s)(j := (g_bullets s j)\<lparr>bul_active := 0\<rparr>)\<rparr>;
          s = (if ast_size (g_asteroids s i) > 1 then
                 let s = spawn_asteroid (ast_x (g_asteroids s i)) (ast_y (g_asteroids s i))
                           (ast_size (g_asteroids s i) - 1) s
                 in spawn_asteroid (ast_x (g_asteroids s i)) (ast_y (g_asteroids s i))
                      (ast_size (g_asteroids s i) - 1) s
               else s);
          s = (if ast_size (g_asteroids s i) = 3 \<and> g_bang_large_sound s
               then Mix_PlayChannel (- 1) BangLarge 0 s
               else if ast_size (g_asteroids s i) = 2 \<and> g_bang_medium_sound s
               then Mix_PlayChannel (- 1) BangMedium 0 s
               else if g_bang_small_sound s
               then Mix_PlayChannel (- 1) BangSmall 0 s
               else s)
      in s\<lparr>g_score := g_score s + (4 - ast_size (g_asteroids s i)) * 20\<rparr>)"

text \<open>
  The test of the bullet loop. The loop leaves at the first bullet that passes it
  (\<^verbatim>\<open>break\<close>) and the bullets before that one change nothing, so the loop is \<open>find\<close>
  followed by the body.
\<close>

definition bullet_hits :: "game \<Rightarrow> nat \<Rightarrow> nat \<Rightarrow> bool" where
  "bullet_hits s i j \<longleftrightarrow>
     bul_active (g_bullets s j) \<noteq> 0 \<and>
     hypotf (bul_x (g_bullets s j) - ast_x (g_asteroids s i))
            (bul_y (g_bullets s j) - ast_y (g_asteroids s i))
       < real_of_int (ast_size (g_asteroids s i) * 10)"

definition bullet_collision :: "nat \<Rightarrow> game \<Rightarrow> game" where
  "bullet_collision i s =
     (case find (bullet_hits s i) [0..<MAX_BULLETS] of
        None \<Rightarrow> s
      | Some j \<Rightarrow> bullet_hit i j s)"

text \<open>The player-asteroid collision of asteroid \<open>i\<close>.\<close>

definition ship_collision :: "nat \<Rightarrow> game \<Rightarrow> game" where
  "ship_collision i s =
     (let dist = hypotf (ship_x (g_ship s) - ast_x (g_asteroids s i))
                        (ship_y (g_ship s) - ast_y (g_asteroids s i))
      in if ship_alive (g_ship s) \<noteq> 0 \<and> ship_invincible_timer (g_ship s) \<le> 0 \<and>
            dist < real_of_int (ast_size (g_asteroids s i) * 8) + SHIP_SIZE / 2
         then
           let s = s\<lparr>g_ship := (g_ship s)\<lparr>ship_alive := 0\<rparr>\<rparr>;
               s = (if g_bang_large_sound s then Mix_PlayChannel (- 1) BangLarge 0 s else s);
               s = s\<lparr>g_lives := g_lives s - 1\<rparr>
           in if g_lives s \<le> 0 then s\<lparr>g_game_over := 1\<rparr>
              else s\<lparr>g_ship := (g_ship s)
                     \<lparr>ship_x := real_of_int SCREEN_WIDTH / 2, ship_y := real_of_int SCREEN_HEIGHT / 2,
                      ship_vx := 0, ship_vy := 0, ship_angle := - 90,
                      ship_alive := 1, ship_invincible_timer := RESPAWN_INVINCIBILITY\<rparr>\<rparr>
         else s)"

text \<open>
  One round of the asteroid loop, on the globals and the local \<^verbatim>\<open>asteroids_count\<close>.
\<close>

definition update_asteroid :: "nat \<Rightarrow> game \<times> int \<Rightarrow> game \<times> int" where
  "update_asteroid i st =
     (case st of (s, asteroids_count) \<Rightarrow>
        if ast_alive (g_asteroids s i) \<noteq> 0 then
          let asteroids_count = asteroids_count + 1;
              a = g_asteroids s i;
              a = a\<lparr>ast_x := ast_x a + ast_vx a\<rparr>;
              a = a\<lparr>ast_y := ast_y a + ast_vy a\<rparr>;
              a = a\<lparr>ast_angle := ast_angle a + ast_rotation_speed a\<rparr>;
              (wx, wy) = wrap_coordinates (ast_x a, ast_y a);
              a = a\<lparr>ast_x := wx, ast_y := wy\<rparr>;
              s = s\<lparr>g_asteroids := (g_asteroids s)(i := a)\<rparr>;
              s = bullet_collision i s;
              s = ship_collision i s
          in (s, asteroids_count)
        else (s, asteroids_count))"

definition update_game :: "game \<Rightarrow> game option" where
  "update_game s =
     (let s = update_ship s;
          s = fold update_bullet [0..<MAX_BULLETS] s;
          (s, asteroids_count) = fold update_asteroid [0..<MAX_ASTEROIDS] (s, 0)
      in if asteroids_count = 0 \<and> g_game_over s = 0
         then setup_level (s\<lparr>g_level := g_level s + 1\<rparr>)
         else Some s)"

subsection \<open>main\<close>

text \<open>
  The loop of \<^verbatim>\<open>main\<close>, fed with what \<^verbatim>\<open>handle_input\<close> reads in each round. The loop
  runs as long as the player goes on and survives; \<open>None\<close> is the run that never ends.
\<close>

partial_function (option) main_loop :: "input stream \<Rightarrow> int \<times> game \<Rightarrow> game option" where
  "main_loop inps st =
     (case st of (is_running, s) \<Rightarrow>
        if is_running \<noteq> 0 \<and> g_game_over s = 0 then
          (case handle_input (shd inps) (is_running, s) of (is_running, s) \<Rightarrow>
             (case update_game s of
                None \<Rightarrow> None
              | Some s \<Rightarrow> main_loop (stl inps) (is_running, s)))
        else Some s)"

text \<open>\<^verbatim>\<open>main\<close> after a successful \<^verbatim>\<open>initialize()\<close>.\<close>

definition main :: "input stream \<Rightarrow> game \<Rightarrow> game option" where
  "main inps s =
     (let s = s\<lparr>g_score := 0, g_lives := 3, g_level := 1, g_game_over := 0\<rparr>
      in case setup_level s of
           None \<Rightarrow> None
         | Some s \<Rightarrow> main_loop inps (1, s))"

subsection \<open>Pool occupancy\<close>

definition alive_asteroids :: "game \<Rightarrow> nat" where
  "alive_asteroids s = length (filter (\<lambda>i. ast_alive (g_asteroids s i) \<noteq> 0) [0..<MAX_ASTEROIDS])"

definition active_bullets :: "game \<Rightarrow> nat" where
  "active_bullets s = length (filter (\<lambda>i. bul_active (g_bullets s i) \<noteq> 0) [0..<MAX_BULLETS])"

subsection \<open>The invariant of the asteroid loop\<close>

text \<open>
  What the asteroid loop of \<^verbatim>\<open>update_game\<close> keeps true, for a tick entered with \<open>l0\<close>
  lives: no life was lost so far, or one life was lost and the ship is either dead with
  the game over or the freshly respawned ship.
\<close>

definition tick_inv :: "int \<Rightarrow> game \<Rightarrow> bool" where
  "tick_inv l0 s \<longleftrightarrow>
     g_lives s = l0 \<or>
     g_lives s = l0 - 1 \<and>
       (if l0 - 1 \<le> 0 then g_game_over s = 1 \<and> ship_alive (g_ship s) = 0
        else g_ship s = respawn_ship)"

subsection \<open>The spawns of a hit\<close>

text \<open>
  The first part of \<open>bullet_hit\<close>, up to the second call of \<^verbatim>\<open>spawn_asteroid\<close>: the
  state on which the sound is chosen and the score computed.
\<close>

definition hit_spawned :: "nat \<Rightarrow> nat \<Rightarrow> game \<Rightarrow> game" where
  "hit_spawned i j s =
     (let s = s\<lparr>g_asteroids := (g_asteroids s)(i := (g_asteroids s i)\<lparr>ast_alive := 0\<rparr>)\<rparr>;
          s = s\<lparr>g_bullets := (g_bullets s)(j := (g_bullets s j)\<lparr>bul_active := 0\<rparr>)\<rparr>
      in if ast_size (g_asteroids s i) > 1 then
           let s = spawn_asteroid (ast_x (g_asteroids s i)) (ast_y (g_asteroids s i))
                     (ast_size (g_asteroids s i) - 1) s
           in spawn_asteroid (ast_x (g_asteroids s i)) (ast_y (g_asteroids s i))
                (ast_size (g_asteroids s i) - 1) s
         else s)"

subsection \<open>Concrete states\<close>

text \<open>
  States used to run the definitions: an empty field \<open>game0\<close> with the ship as
  \<^verbatim>\<open>setup_level\<close> leaves it, every chunk loaded and \<^verbatim>\<open>rand()\<close> returning 0 for
  ever, and variations of it.
\<close>

definition asteroid0 :: Asteroid where
  "asteroid0 = \<lparr>ast_x = 0, ast_y = 0, ast_vx = 0, ast_vy = 0, ast_angle = 0, ast_rotation_speed = 0,
     ast_size = 0, ast_num_vertices = 0, ast_vertices = (\<lambda>_. 0), ast_alive = 0\<rparr>"

definition bullet0 :: Bullet where
  "bullet0 = \<lparr>bul_x = 0, bul_y = 0, bul_vx = 0, bul_vy = 0, bul_lifetime = 0, bul_active = 0\<rparr>"

definition game0 :: game where
  "game0 = \<lparr>g_ship = respawn_ship, g_bullets = (\<lambda>_. bullet0), g_asteroids = (\<lambda>_. asteroid0),
     g_score = 0, g_lives = 3, g_level = 1, g_game_over = 0,
     g_shoot_sound = True, g_thrust_sound = True, g_bang_large_sound = True,
     g_bang_medium_sound = True, g_bang_small_sound = True,
     last_shot = 0, rand_src = sconst 0, mixer = []\<rparr>"

definition rock :: "real \<Rightarrow> real \<Rightarrow> int \<Rightarrow> Asteroid" where
  "rock x y sz = asteroid0\<lparr>ast_x := x, ast_y := y, ast_size := sz, ast_alive := 1\<rparr>"

definition shot :: "real \<Rightarrow> real \<Rightarrow> Bullet" where
  "shot x y = bullet0\<lparr>bul_x := x, bul_y := y, bul_lifetime := 30, bul_active := 1\<rparr>"

definition game_full :: game where
  "game_full = game0\<lparr>g_bullets := (\<lambda>_. shot 100 100), g_asteroids := (\<lambda>_. rock 200 200 3)\<rparr>"

definition game_dead :: game where
  "game_dead = game0\<lparr>g_ship := respawn_ship\<lparr>ship_alive := 0\<rparr>\<rparr>"

text \<open>A size-1 asteroid sits on the ship; \<open>l\<close> lives and \<open>t\<close> ticks of invincibility are left.\<close>

definition crash :: "int \<Rightarrow> int \<Rightarrow> game" where
  "crash l t = game0\<lparr>g_ship := respawn_ship\<lparr>ship_invincible_timer := t\<rparr>,
     g_asteroids := (\<lambda>_. asteroid0)(0 := rock 400 300 1), g_lives := l\<rparr>"

definition input0 :: input where
  "input0 = \<lparr>quit_event = False, key_left = False, key_right = False, key_up = False,
     key_space = False, mix_playing1 = False, ticks_test = 0, ticks_store = 0\<rparr>"

text \<open>The last honoured fire request was at 1000 ms; the space bar is down at time \<open>t\<close>.\<close>

definition cooling :: game where
  "cooling = game0\<lparr>last_shot := 1000\<rparr>"

definition press :: "32 word \<Rightarrow> input" where
  "press t = input0\<lparr>key_space := True, ticks_test := t, ticks_store := t\<rparr>"

text \<open>
  A bullet sits on an asteroid of size \<open>sz\<close> in slot 0; every other slot of both pools
  is free. \<open>hit_outcome sz t\<close> describes the state \<open>t\<close> one tick later.
\<close>

definition hit :: "int \<Rightarrow> game" where
  "hit sz = game0\<lparr>g_bullets := (\<lambda>_. bullet0)(0 := shot 100 100),
                  g_asteroids := (\<lambda>_. asteroid0)(0 := rock 100 100 sz)\<rparr>"

definition hit_outcome :: "int \<Rightarrow> game \<Rightarrow> bool" where
  "hit_outcome sz t \<longleftrightarrow>
     g_score t = (4 - (sz - 1)) * 20 \<and>
     list_all (\<lambda>j. bul_active (g_bullets t j) = 0) [0..<MAX_BULLETS] \<and>
     ship_alive (g_ship t) \<noteq> 0 \<and> 0 < ship_invincible_timer (g_ship t) \<and>
     ast_alive (g_asteroids t 0) = 1 \<and> ast_size (g_asteroids t 0) = sz - 1 \<and>
     (if 2 < sz then ast_alive (g_asteroids t 1) = 1 \<and> ast_size (g_asteroids t 1) = sz - 2
      else ast_alive (g_asteroids t 1) = 0) \<and>
     list_all (\<lambda>k. ast_alive (g_asteroids t k) = 0) [2..<MAX_ASTEROIDS]"

section \<open>Properties\<close>

subsection \<open>Searching a pool\<close>

lemma find_upt_None: "(find P [0..<n] = None) = (\<forall>k<n. \<not> P k)"
  by (simp add: find_None_iff)

lemma find_upt_Some: "(find P [0..<n] = Some i) = (i < n \<and> P i \<and> (\<forall>k<i. \<not> P k))"
  by (auto simp: find_Some_iff)

lemma fold_spawn_vertex:
  "\<exists>f r. fold (spawn_vertex i sz) js s =
     s\<lparr>g_asteroids := (g_asteroids s)(i := (g_asteroids s i)\<lparr>ast_vertices := f\<rparr>), rand_src := r\<rparr>"
proof (induction js arbitrary: s)
  case Nil
  have "s = s\<lparr>g_asteroids := (g_asteroids s)(i := (g_asteroids s i)\<lparr>ast_vertices := ast_vertices (g_asteroids s i)\<rparr>), rand_src := rand_src s\<rparr>"
    by simp
  then show ?case by (metis fold_simps(1))
next
  case (Cons j js)
  have "\<exists>f r. spawn_vertex i sz j s =
      s\<lparr>g_asteroids := (g_asteroids s)(i := (g_asteroids s i)\<lparr>ast_vertices := f\<rparr>), rand_src := r\<rparr>"
    apply (rule exI [of _ "ast_vertices (g_asteroids (spawn_vertex i sz j s) i)"])
    apply (rule exI [of _ "rand_src (spawn_vertex i sz j s)"])
    apply (simp add: spawn_vertex_def rand_def Let_def)
    done
  then obtain f r where 1: "spawn_vertex i sz j s =
      s\<lparr>g_asteroids := (g_asteroids s)(i := (g_asteroids s i)\<lparr>ast_vertices := f\<rparr>), rand_src := r\<rparr>"
    by blast
  from Cons.IH [of "spawn_vertex i sz j s"] obtain f' r' where
    2: "fold (spawn_vertex i sz) js (spawn_vertex i sz j s) =
      (spawn_vertex i sz j s)\<lparr>g_asteroids := (g_asteroids (spawn_vertex i sz j s))
         (i := (g_asteroids (spawn_vertex i sz j s) i)\<lparr>ast_vertices := f'\<rparr>), rand_src := r'\<rparr>"
    by blast
  have "fold (spawn_vertex i sz) (j # js) s =
      s\<lparr>g_asteroids := (g_asteroids s)(i := (g_asteroids s i)\<lparr>ast_vertices := f'\<rparr>), rand_src := r'\<rparr>"
    using 2 by (simp add: 1)
  then show ?case by blast
qed

lemma spawn_asteroid_small: "sz < 1 \<Longrightarrow> spawn_asteroid x y sz s = s"
  by (simp add: spawn_asteroid_def)

lemma spawn_asteroid_full:
  "\<forall>i<MAX_ASTEROIDS. ast_alive (g_asteroids s i) \<noteq> 0 \<Longrightarrow> spawn_asteroid x y sz s = s"
  by (simp add: spawn_asteroid_def find_upt_None[THEN iffD2])

lemma spawn_asteroid_slot:
  assumes "1 \<le> sz" and "find (\<lambda>i. ast_alive (g_asteroids s i) = 0) [0..<MAX_ASTEROIDS] = Some i"
  shows "\<exists>a r. spawn_asteroid x y sz s = s\<lparr>g_asteroids := (g_asteroids s)(i := a), rand_src := r\<rparr>
           \<and> ast_alive a = 1 \<and> ast_x a = x \<and> ast_y a = y \<and> ast_size a = sz"
proof -
  define s1 where "s1 = snd (rand (snd (rand (snd (rand (snd (rand s)))))))"
  define a where "a = (g_asteroids s i)
                \<lparr>ast_alive := 1,
                 ast_x := x, ast_y := y,
                 ast_vx := real_of_int (int (fst (rand s)) mod 200 - 100) / 100,
                 ast_vy := real_of_int (int (fst (rand (snd (rand s)))) mod 200 - 100) / 100,
                 ast_angle := 0,
                 ast_rotation_speed := real_of_int (int (fst (rand (snd (rand (snd (rand s)))))) mod 100 - 50) / 50,
                 ast_size := sz,
                 ast_num_vertices := 8 + int (fst (rand (snd (rand (snd (rand (snd (rand s)))))))) mod 9\<rparr>"
  define s2 where "s2 = s1\<lparr>g_asteroids := (g_asteroids s1)(i := a)\<rparr>"
  have e: "spawn_asteroid x y sz s = fold (spawn_vertex i sz) [0..<nat (ast_num_vertices a)] s2"
    using assms by (simp add: spawn_asteroid_def Let_def split_beta s1_def a_def s2_def rand_def)
  obtain f r where fr: "fold (spawn_vertex i sz) [0..<nat (ast_num_vertices a)] s2 =
     s2\<lparr>g_asteroids := (g_asteroids s2)(i := (g_asteroids s2 i)\<lparr>ast_vertices := f\<rparr>), rand_src := r\<rparr>"
    using fold_spawn_vertex by blast
  have "spawn_asteroid x y sz s = s\<lparr>g_asteroids := (g_asteroids s)(i := a\<lparr>ast_vertices := f\<rparr>), rand_src := r\<rparr>"
    by (simp only: e fr) (simp add: s2_def s1_def rand_def)
  moreover have "ast_alive (a\<lparr>ast_vertices := f\<rparr>) = 1 \<and> ast_x (a\<lparr>ast_vertices := f\<rparr>) = x
     \<and> ast_y (a\<lparr>ast_vertices := f\<rparr>) = y \<and> ast_size (a\<lparr>ast_vertices := f\<rparr>) = sz"
    by (simp add: a_def)
  ultimately show ?thesis by blast
qed

lemma spawn_asteroid_frame:
  "\<exists>A r. spawn_asteroid x y sz s = s\<lparr>g_asteroids := A, rand_src := r\<rparr>"
proof (cases "sz < 1")
  case True
  have "s = s\<lparr>g_asteroids := g_asteroids s, rand_src := rand_src s\<rparr>" by simp
  with True show ?thesis by (metis spawn_asteroid_small)
next
  case False
  show ?thesis
  proof (cases "find (\<lambda>i. ast_alive (g_asteroids s i) = 0) [0..<MAX_ASTEROIDS]")
    case None
    have "s = s\<lparr>g_asteroids := g_asteroids s, rand_src := rand_src s\<rparr>" by simp
    moreover have "spawn_asteroid x y sz s = s" using None by (simp add: spawn_asteroid_def)
    ultimately show ?thesis by metis
  next
    case (Some i)
    with False spawn_asteroid_slot [of sz s i x y] show ?thesis by force
  qed
qed

lemma filter_upt_all: "(length (filter P [0..<n]) = n) = (\<forall>k<n. P k)"
proof
  assume l: "length (filter P [0..<n]) = n"
  show "\<forall>k<n. P k"
  proof (intro allI impI)
    fix k assume "k < n"
    then have k: "k \<in> set [0..<n]" by simp
    show "P k"
    proof (rule ccontr)
      assume "\<not> P k"
      from length_filter_less [of k "[0..<n]" P] k this l show False by simp
    qed
  qed
next
  assume "\<forall>k<n. P k"
  then have "filter P [0..<n] = [0..<n]" by (simp add: filter_id_conv)
  then show "length (filter P [0..<n]) = n" by simp
qed

lemma fire_bullet_full: "\<forall>j<MAX_BULLETS. bul_active (g_bullets s j) \<noteq> 0 \<Longrightarrow> fire_bullet s = s"
proof -
  assume "\<forall>j<MAX_BULLETS. bul_active (g_bullets s j) \<noteq> 0"
  then have "find (\<lambda>i. bul_active (g_bullets s i) = 0) [0..<MAX_BULLETS] = None"
    unfolding find_upt_None by blast
  then show ?thesis by (simp add: fire_bullet_def)
qed

lemma spawn_asteroid_above:
  "g_asteroids (spawn_asteroid x y sz s) (MAX_ASTEROIDS + k) = g_asteroids s (MAX_ASTEROIDS + k)"
proof (cases "1 \<le> sz")
  case False
  then show ?thesis by (simp add: spawn_asteroid_small)
next
  case sz: True
  show ?thesis
  proof (cases "find (\<lambda>i. ast_alive (g_asteroids s i) = 0) [0..<MAX_ASTEROIDS]")
    case None
    then show ?thesis by (simp add: spawn_asteroid_def)
  next
    case (Some i)
    then have i: "i < MAX_ASTEROIDS" unfolding find_upt_Some by blast
    from spawn_asteroid_slot [OF sz Some, of x y] obtain a r where
      "spawn_asteroid x y sz s = s\<lparr>g_asteroids := (g_asteroids s)(i := a), rand_src := r\<rparr>" by blast
    with i show ?thesis by simp
  qed
qed

lemma fire_bullet_above:
  "g_bullets (fire_bullet s) (MAX_BULLETS + k) = g_bullets s (MAX_BULLETS + k)"
proof (cases "find (\<lambda>i. bul_active (g_bullets s i) = 0) [0..<MAX_BULLETS]")
  case None
  then show ?thesis by (simp add: fire_bullet_def)
next
  case (Some i)
  then have i: "i < MAX_BULLETS" unfolding find_upt_Some by blast
  with Some show ?thesis by (simp add: fire_bullet_def Let_def Mix_PlayChannel_def)
qed

subsection \<open>Wrapping\<close>

text \<open>
  Against claim C1 as stated: a coordinate that is exactly the width or the height is
  left where it is, since the tests of \<^verbatim>\<open>wrap_coordinates\<close> are strict, and a coordinate
  further than one screen away is moved by one screen only.
\<close>

theorem wrap_coordinates_boundary_counterexample:
  "wrap_coordinates (800, 600) = (800, 600) \<and> wrap_coordinates (- 1000, 2000) = (- 200, 1400)"
  by (simp add: wrap_coordinates_def)

text \<open>
  Claim C1, amended: a position at most one screen outside the screen, that is with
  \<open>- 800 \<le> x \<le> 1600\<close> and \<open>- 600 \<le> y \<le> 1200\<close>, is wrapped into the closed
  rectangle \<open>[0, 800] \<times> [0, 600]\<close>. A negative coordinate is moved up by one screen
  (so \<open>x = - 1\<close> becomes \<open>799\<close>), a coordinate above the width or height is moved down
  by one screen, and a coordinate from 0 to the width or height, both included, is
  unchanged (so \<open>x = 800\<close> stays \<open>800\<close>).
\<close>

theorem wrap_coordinates_closed_range:
  "(- 800 \<le> x \<and> x \<le> 1600 \<and> - 600 \<le> y \<and> y \<le> 1200 \<longrightarrow>
      0 \<le> fst (wrap_coordinates (x, y)) \<and> fst (wrap_coordinates (x, y)) \<le> 800 \<and>
      0 \<le> snd (wrap_coordinates (x, y)) \<and> snd (wrap_coordinates (x, y)) \<le> 600) \<and>
   (x < 0 \<longrightarrow> fst (wrap_coordinates (x, y)) = x + 800) \<and>
   (800 < x \<longrightarrow> fst (wrap_coordinates (x, y)) = x - 800) \<and>
   (0 \<le> x \<and> x \<le> 800 \<longrightarrow> fst (wrap_coordinates (x, y)) = x) \<and>
   (y < 0 \<longrightarrow> snd (wrap_coordinates (x, y)) = y + 600) \<and>
   (600 < y \<longrightarrow> snd (wrap_coordinates (x, y)) = y - 600) \<and>
   (0 \<le> y \<and> y \<le> 600 \<longrightarrow> snd (wrap_coordinates (x, y)) = y)"
  by (simp add: wrap_coordinates_def Let_def)

theorem wrap_coordinates_closed_range_witness:
  "(- 800 \<le> (- 1 :: real) \<and> (- 1 :: real) \<le> 1600 \<and> - 600 \<le> (700 :: real) \<and> (700 :: real) \<le> 1200) \<and>
   (- 1 :: real) < 0 \<and> (600 :: real) < 700 \<and> wrap_coordinates (- 1, 700) = (799, 100) \<and>
   (0 \<le> (800 :: real) \<and> (800 :: real) \<le> 800) \<and> (- 600 :: real) < 0 \<and>
   wrap_coordinates (800, - 600) = (800, 0)"
  using wrap_coordinates_closed_range [of "- 1" 700] wrap_coordinates_closed_range [of 800 "- 600"]
  by (simp add: prod_eq_iff)

subsection \<open>Pool capacity\<close>

text \<open>
  Claim C4: in every state at most 50 asteroid slots are alive and at most 10 bullet
  slots are active. \<^verbatim>\<open>spawn_asteroid\<close> with all 50 slots alive returns the state it was
  given, and so does \<^verbatim>\<open>fire_bullet\<close> with all 10 slots active and \<^verbatim>\<open>spawn_asteroid\<close>
  with a size below 1: no pool, no counter, no random number and no sound is touched.
  Neither function writes at an index at or above the capacity.
\<close>

theorem pool_capacity:
  "alive_asteroids s \<le> MAX_ASTEROIDS \<and> active_bullets s \<le> MAX_BULLETS \<and>
   (alive_asteroids s = MAX_ASTEROIDS \<longrightarrow> spawn_asteroid x y sz s = s) \<and>
   (active_bullets s = MAX_BULLETS \<longrightarrow> fire_bullet s = s) \<and>
   (sz < 1 \<longrightarrow> spawn_asteroid x y sz s = s) \<and>
   (\<forall>k. g_asteroids (spawn_asteroid x y sz s) (MAX_ASTEROIDS + k) = g_asteroids s (MAX_ASTEROIDS + k)) \<and>
   (\<forall>k. g_bullets (fire_bullet s) (MAX_BULLETS + k) = g_bullets s (MAX_BULLETS + k))"
proof -
  have "alive_asteroids s \<le> MAX_ASTEROIDS"
    unfolding alive_asteroids_def by (metis length_filter_le length_upt diff_zero)
  moreover have "active_bullets s \<le> MAX_BULLETS"
    unfolding active_bullets_def by (metis length_filter_le length_upt diff_zero)
  moreover have "alive_asteroids s = MAX_ASTEROIDS \<longrightarrow> spawn_asteroid x y sz s = s"
    unfolding alive_asteroids_def filter_upt_all by (rule impI, rule spawn_asteroid_full)
  moreover have "active_bullets s = MAX_BULLETS \<longrightarrow> fire_bullet s = s"
    unfolding active_bullets_def filter_upt_all by (rule impI, rule fire_bullet_full)
  ultimately show ?thesis
    using spawn_asteroid_small [of sz x y s] spawn_asteroid_above [of x y sz s] fire_bullet_above [of s]
    by blast
qed

theorem pool_capacity_witness:
  "alive_asteroids game_full = MAX_ASTEROIDS \<and> spawn_asteroid 10 20 2 game_full = game_full \<and>
   active_bullets game_full = MAX_BULLETS \<and> fire_bullet game_full = game_full \<and>
   (0::int) < 1 \<and> spawn_asteroid 10 20 0 game0 = game0"
proof -
  have a: "alive_asteroids game_full = MAX_ASTEROIDS"
    by (simp add: alive_asteroids_def game_full_def rock_def asteroid0_def)
  have b: "active_bullets game_full = MAX_BULLETS"
    by (simp add: active_bullets_def game_full_def shot_def bullet0_def)
  show ?thesis
    using a b pool_capacity [of game_full 10 20 2] pool_capacity [of game0 10 20 0] by simp
qed

subsection \<open>Firing with a dead ship\<close>

text \<open>
  Claim C9: when \<^verbatim>\<open>g_ship.alive\<close> is 0, \<^verbatim>\<open>fire_bullet\<close> returns the state it was given,
  whatever the bullet pool holds: no slot is activated and no sound is played.
\<close>

theorem fire_bullet_dead_ship: "ship_alive (g_ship s) = 0 \<Longrightarrow> fire_bullet s = s"
  by (simp add: fire_bullet_def)

theorem fire_bullet_dead_ship_witness:
  "ship_alive (g_ship game_dead) = 0 \<and> fire_bullet game_dead = game_dead"
proof -
  have a: "ship_alive (g_ship game_dead) = 0" by (simp add: game_dead_def)
  from a fire_bullet_dead_ship [OF a] show ?thesis by simp
qed

subsection \<open>What each step leaves unchanged\<close>

lemma spawn_asteroid_fields [simp]:
  "g_ship (spawn_asteroid x y sz s) = g_ship s"
  "g_bullets (spawn_asteroid x y sz s) = g_bullets s"
  "g_score (spawn_asteroid x y sz s) = g_score s"
  "g_lives (spawn_asteroid x y sz s) = g_lives s"
  "g_level (spawn_asteroid x y sz s) = g_level s"
  "g_game_over (spawn_asteroid x y sz s) = g_game_over s"
  "g_bang_large_sound (spawn_asteroid x y sz s) = g_bang_large_sound s"
  "g_bang_medium_sound (spawn_asteroid x y sz s) = g_bang_medium_sound s"
  "g_bang_small_sound (spawn_asteroid x y sz s) = g_bang_small_sound s"
  "last_shot (spawn_asteroid x y sz s) = last_shot s"
  "mixer (spawn_asteroid x y sz s) = mixer s"
proof -
  obtain A r where e: "spawn_asteroid x y sz s = s\<lparr>g_asteroids := A, rand_src := r\<rparr>"
    using spawn_asteroid_frame by blast
  show "g_ship (spawn_asteroid x y sz s) = g_ship s"
  "g_bullets (spawn_asteroid x y sz s) = g_bullets s"
  "g_score (spawn_asteroid x y sz s) = g_score s"
  "g_lives (spawn_asteroid x y sz s) = g_lives s"
  "g_level (spawn_asteroid x y sz s) = g_level s"
  "g_game_over (spawn_asteroid x y sz s) = g_game_over s"
  "g_bang_large_sound (spawn_asteroid x y sz s) = g_bang_large_sound s"
  "g_bang_medium_sound (spawn_asteroid x y sz s) = g_bang_medium_sound s"
  "g_bang_small_sound (spawn_asteroid x y sz s) = g_bang_small_sound s"
  "last_shot (spawn_asteroid x y sz s) = last_shot s"
  "mixer (spawn_asteroid x y sz s) = mixer s"
    by (simp_all add: e)
qed

lemma bullet_hit_fields [simp]:
  "g_ship (bullet_hit i j s) = g_ship s"
  "g_lives (bullet_hit i j s) = g_lives s"
  "g_level (bullet_hit i j s) = g_level s"
  "g_game_over (bullet_hit i j s) = g_game_over s"
  "last_shot (bullet_hit i j s) = last_shot s"
  by (simp_all add: bullet_hit_def Let_def Mix_PlayChannel_def)

lemma bullet_collision_fields [simp]:
  "g_ship (bullet_collision i s) = g_ship s"
  "g_lives (bullet_collision i s) = g_lives s"
  "g_level (bullet_collision i s) = g_level s"
  "g_game_over (bullet_collision i s) = g_game_over s"
  "last_shot (bullet_collision i s) = last_shot s"
  by (simp_all add: bullet_collision_def split: option.split)

lemma ship_collision_fields [simp]:
  "g_level (ship_collision i s) = g_level s"
  "g_asteroids (ship_collision i s) = g_asteroids s"
  "g_bullets (ship_collision i s) = g_bullets s"
  "g_score (ship_collision i s) = g_score s"
  "last_shot (ship_collision i s) = last_shot s"
  by (simp_all add: ship_collision_def Let_def Mix_PlayChannel_def)

lemma ship_collision_shielded:
  "ship_alive (g_ship s) = 0 \<or> 0 < ship_invincible_timer (g_ship s) \<Longrightarrow> ship_collision i s = s"
  by (auto simp: ship_collision_def Let_def)

lemma ship_collision_hit:
  "ship_collision i s = s \<or>
   (g_lives (ship_collision i s) = g_lives s - 1 \<and>
    (if g_lives s - 1 \<le> 0
     then g_game_over (ship_collision i s) = 1 \<and> ship_alive (g_ship (ship_collision i s)) = 0
     else g_game_over (ship_collision i s) = g_game_over s \<and> g_ship (ship_collision i s) = respawn_ship))"
  by (simp add: ship_collision_def Let_def Mix_PlayChannel_def respawn_ship_def)

subsection \<open>The level setup always ends\<close>

lemma hypotf_ge_fst: "\<bar>a\<bar> \<le> hypotf a b"
proof -
  have "sqrt (a\<^sup>2) \<le> sqrt (a\<^sup>2 + b\<^sup>2)" by (rule real_sqrt_le_mono) simp
  then show ?thesis by (simp add: hypotf_def)
qed

lemma hypotf_ge_snd: "\<bar>b\<bar> \<le> hypotf a b"
proof -
  have "sqrt (b\<^sup>2) \<le> sqrt (a\<^sup>2 + b\<^sup>2)" by (rule real_sqrt_le_mono) simp
  then show ?thesis by (simp add: hypotf_def)
qed

lemma pick_position_center:
  assumes "ship_x (g_ship s) = 400" and "ship_y (g_ship s) = 300"
  shows "\<exists>x y r. pick_position s = Some (x, y, s\<lparr>rand_src := r\<rparr>) \<and> 200 \<le> hypotf (x - 400) (y - 300)"
proof -
  define r1 where "r1 = shd (rand_src s)"
  define r2 where "r2 = shd (stl (rand_src s))"
  define r3 where "r3 = shd (stl (stl (rand_src s)))"
  define x where "x = (if r1 mod 2 = 0
               then (if r2 mod 2 = 0 then 0 - SHIP_SIZE * 4
                     else real_of_int SCREEN_WIDTH + SHIP_SIZE * 4)
               else real_of_int (int r2 mod SCREEN_WIDTH))"
  define y where "y = (if r1 mod 2 = 0
               then real_of_int (int r3 mod SCREEN_HEIGHT)
               else (if r3 mod 2 = 0 then 0 - SHIP_SIZE * 4
                     else real_of_int SCREEN_HEIGHT + SHIP_SIZE * 4))"
  have far: "\<bar>x - 400\<bar> = 480 \<or> \<bar>y - 300\<bar> = 380"
    by (simp add: x_def y_def)
  have "200 \<le> hypotf (x - 400) (y - 300)"
    using far hypotf_ge_fst [of "x - 400" "y - 300"] hypotf_ge_snd [of "y - 300" "x - 400"]
    by linarith
  moreover have "pick_position s =
      (if hypotf (x - 400) (y - 300) < 200 then pick_position (s\<lparr>rand_src := stl (stl (stl (rand_src s)))\<rparr>)
       else Some (x, y, s\<lparr>rand_src := stl (stl (stl (rand_src s)))\<rparr>))"
    by (subst pick_position.simps)
       (simp add: rand_def Let_def assms x_def y_def r1_def r2_def r3_def)
  ultimately have "pick_position s = Some (x, y, s\<lparr>rand_src := stl (stl (stl (rand_src s)))\<rparr>)
      \<and> 200 \<le> hypotf (x - 400) (y - 300)"
    by simp
  then show ?thesis by blast
qed

lemma spawn_level_asteroids_total:
  assumes "ship_x (g_ship s) = 400" and "ship_y (g_ship s) = 300"
  shows "\<exists>A r. spawn_level_asteroids n s = Some (s\<lparr>g_asteroids := A, rand_src := r\<rparr>)"
  using assms
proof (induction n arbitrary: s)
  case 0
  have "s = s\<lparr>g_asteroids := g_asteroids s, rand_src := rand_src s\<rparr>" by simp
  then show ?case by (metis spawn_level_asteroids.simps(1))
next
  case (Suc n)
  from pick_position_center [OF Suc.prems] obtain x y r where
    p: "pick_position s = Some (x, y, s\<lparr>rand_src := r\<rparr>)" by blast
  obtain A r' where sp: "spawn_asteroid x y 3 (s\<lparr>rand_src := r\<rparr>) = s\<lparr>g_asteroids := A, rand_src := r'\<rparr>"
    using spawn_asteroid_frame [of x y 3 "s\<lparr>rand_src := r\<rparr>"] by auto
  have "ship_x (g_ship (s\<lparr>g_asteroids := A, rand_src := r'\<rparr>)) = 400"
       "ship_y (g_ship (s\<lparr>g_asteroids := A, rand_src := r'\<rparr>)) = 300"
    using Suc.prems by simp_all
  from Suc.IH [OF this] obtain A' r'' where
    "spawn_level_asteroids n (s\<lparr>g_asteroids := A, rand_src := r'\<rparr>) = Some (s\<lparr>g_asteroids := A', rand_src := r''\<rparr>)"
    by auto
  then have "spawn_level_asteroids (Suc n) s = Some (s\<lparr>g_asteroids := A', rand_src := r''\<rparr>)"
    by (simp add: p sp)
  then show ?case by blast
qed

lemma fold_clear_bullet:
  "fold clear_bullet [0..<n] s =
     s\<lparr>g_bullets := (\<lambda>i. if i < n then (g_bullets s i)\<lparr>bul_active := 0\<rparr> else g_bullets s i)\<rparr>"
proof (induction n)
  case 0
  show ?case by simp
next
  case (Suc n)
  have "fold clear_bullet [0..<Suc n] s = clear_bullet n (fold clear_bullet [0..<n] s)" by simp
  also have "\<dots> = s\<lparr>g_bullets := (\<lambda>i. if i < Suc n then (g_bullets s i)\<lparr>bul_active := 0\<rparr> else g_bullets s i)\<rparr>"
    unfolding Suc by (simp add: clear_bullet_def fun_eq_iff less_Suc_eq)
  finally show ?case .
qed

lemma fold_clear_asteroid:
  "fold clear_asteroid [0..<n] s =
     s\<lparr>g_asteroids := (\<lambda>i. if i < n then (g_asteroids s i)\<lparr>ast_alive := 0\<rparr> else g_asteroids s i)\<rparr>"
proof (induction n)
  case 0
  show ?case by simp
next
  case (Suc n)
  have "fold clear_asteroid [0..<Suc n] s = clear_asteroid n (fold clear_asteroid [0..<n] s)" by simp
  also have "\<dots> = s\<lparr>g_asteroids := (\<lambda>i. if i < Suc n then (g_asteroids s i)\<lparr>ast_alive := 0\<rparr> else g_asteroids s i)\<rparr>"
    unfolding Suc by (simp add: clear_asteroid_def fun_eq_iff less_Suc_eq)
  finally show ?case .
qed

lemma setup_level_total:
  "\<exists>B A r. setup_level s = Some (s\<lparr>g_ship := respawn_ship, g_bullets := B, g_asteroids := A, rand_src := r\<rparr>)"
proof -
  define s1 where "s1 = fold clear_asteroid [0..<MAX_ASTEROIDS] (fold clear_bullet [0..<MAX_BULLETS] (s\<lparr>g_ship := respawn_ship\<rparr>))"
  have s1: "s1 = s\<lparr>g_ship := respawn_ship, g_bullets := g_bullets s1, g_asteroids := g_asteroids s1\<rparr>"
    unfolding s1_def fold_clear_bullet fold_clear_asteroid by simp
  then have "ship_x (g_ship s1) = 400" "ship_y (g_ship s1) = 300"
    unfolding s1_def fold_clear_bullet fold_clear_asteroid by (simp_all add: respawn_ship_def)
  from spawn_level_asteroids_total [OF this, of "nat (g_level s1 + 3)"] obtain A r where
    "spawn_level_asteroids (nat (g_level s1 + 3)) s1 = Some (s1\<lparr>g_asteroids := A, rand_src := r\<rparr>)" by blast
  moreover have "setup_level s = spawn_level_asteroids (nat (g_level s1 + 3)) s1"
    by (simp add: setup_level_def s1_def Let_def)
  moreover have "s1\<lparr>g_asteroids := A, rand_src := r\<rparr> =
      s\<lparr>g_ship := respawn_ship, g_bullets := g_bullets s1, g_asteroids := A, rand_src := r\<rparr>"
    by (subst s1) simp
  ultimately have "setup_level s =
      Some (s\<lparr>g_ship := respawn_ship, g_bullets := g_bullets s1, g_asteroids := A, rand_src := r\<rparr>)"
    by simp
  then show ?thesis by blast
qed

subsection \<open>The tick\<close>

lemma update_ship_fields [simp]:
  "g_lives (update_ship s) = g_lives s"
  "g_level (update_ship s) = g_level s"
  "g_game_over (update_ship s) = g_game_over s"
  "g_asteroids (update_ship s) = g_asteroids s"
  "g_bullets (update_ship s) = g_bullets s"
  "g_score (update_ship s) = g_score s"
  "last_shot (update_ship s) = last_shot s"
  "ship_alive (g_ship (update_ship s)) = ship_alive (g_ship s)"
  by (simp_all add: update_ship_def Let_def split_beta)

lemma update_ship_timer:
  "ship_invincible_timer (g_ship (update_ship s)) =
     (if ship_alive (g_ship s) \<noteq> 0 \<and> 0 < ship_invincible_timer (g_ship s)
      then ship_invincible_timer (g_ship s) - 1 else ship_invincible_timer (g_ship s))"
  by (simp add: update_ship_def Let_def split_beta)

lemma update_bullet_fields [simp]:
  "g_ship (update_bullet i s) = g_ship s"
  "g_lives (update_bullet i s) = g_lives s"
  "g_level (update_bullet i s) = g_level s"
  "g_game_over (update_bullet i s) = g_game_over s"
  "g_asteroids (update_bullet i s) = g_asteroids s"
  "g_score (update_bullet i s) = g_score s"
  "last_shot (update_bullet i s) = last_shot s"
  by (simp_all add: update_bullet_def Let_def split_beta)

lemma fold_update_bullet_fields [simp]:
  "g_ship (fold update_bullet js s) = g_ship s"
  "g_lives (fold update_bullet js s) = g_lives s"
  "g_level (fold update_bullet js s) = g_level s"
  "g_game_over (fold update_bullet js s) = g_game_over s"
  "g_asteroids (fold update_bullet js s) = g_asteroids s"
  "g_score (fold update_bullet js s) = g_score s"
  "last_shot (fold update_bullet js s) = last_shot s"
  by (induction js arbitrary: s; simp)+

text \<open>One round of the asteroid loop is the ship test applied to a state with the same
  ship, lives, flag and level, or it changes none of them.\<close>

lemma update_asteroid_form:
  "\<exists>s1. g_ship s1 = g_ship s \<and> g_lives s1 = g_lives s \<and> g_game_over s1 = g_game_over s \<and>
        g_level s1 = g_level s \<and> last_shot s1 = last_shot s \<and>
        (fst (update_asteroid i (s, c)) = ship_collision i s1 \<or> fst (update_asteroid i (s, c)) = s1)"
proof (cases "ast_alive (g_asteroids s i) \<noteq> 0")
  case False
  then have "fst (update_asteroid i (s, c)) = s" by (simp add: update_asteroid_def)
  then show ?thesis by blast
next
  case True
  have "\<exists>s0. fst (update_asteroid i (s, c)) = ship_collision i (bullet_collision i s0) \<and>
          g_ship s0 = g_ship s \<and> g_lives s0 = g_lives s \<and> g_game_over s0 = g_game_over s \<and>
          g_level s0 = g_level s \<and> last_shot s0 = last_shot s"
    using True
    apply (simp add: update_asteroid_def Let_def split_beta)
    apply (intro exI conjI)
         apply (rule refl)
        apply simp_all
    done
  then obtain s0 where "fst (update_asteroid i (s, c)) = ship_collision i (bullet_collision i s0)"
    and "g_ship (bullet_collision i s0) = g_ship s \<and> g_lives (bullet_collision i s0) = g_lives s \<and>
        g_game_over (bullet_collision i s0) = g_game_over s \<and>
        g_level (bullet_collision i s0) = g_level s \<and> last_shot (bullet_collision i s0) = last_shot s"
    by auto
  then show ?thesis by blast
qed

lemma fold_update_asteroid_inv:
  assumes "P (fst st)" and "\<And>i st. P (fst st) \<Longrightarrow> P (fst (update_asteroid i st))"
  shows "P (fst (fold update_asteroid xs st))"
  using assms(1)
proof (induction xs arbitrary: st)
  case Nil
  then show ?case by simp
next
  case (Cons i xs)
  from assms(2) [OF Cons.prems] Cons.IH show ?case by simp
qed

lemma update_asteroid_level: "g_level (fst (update_asteroid i st)) = g_level (fst st)"
proof -
  obtain s c where st: "st = (s, c)" by (cases st)
  from update_asteroid_form [of s i c] show ?thesis unfolding st by auto
qed

lemma update_asteroid_tick_inv:
  assumes "tick_inv l0 (fst st)"
  shows "tick_inv l0 (fst (update_asteroid i st))"
proof -
  obtain s c where st: "st = (s, c)" by (cases st)
  from update_asteroid_form [of s i c] obtain s1 where
    f: "g_ship s1 = g_ship s" "g_lives s1 = g_lives s" "g_game_over s1 = g_game_over s" and
    r: "fst (update_asteroid i (s, c)) = ship_collision i s1 \<or> fst (update_asteroid i (s, c)) = s1"
    by blast
  from assms f have inv1: "tick_inv l0 s1" by (auto simp: tick_inv_def st split: if_splits)
  have "tick_inv l0 (ship_collision i s1)"
  proof (cases "g_lives s1 = l0")
    case True
    with ship_collision_hit [of i s1] inv1 show ?thesis
      by (auto simp: tick_inv_def split: if_splits)
  next
    case False
    with inv1 have "ship_alive (g_ship s1) = 0 \<or> 0 < ship_invincible_timer (g_ship s1)"
      by (auto simp: tick_inv_def respawn_ship_def split: if_splits)
    then have "ship_collision i s1 = s1" by (rule ship_collision_shielded)
    with inv1 show ?thesis by simp
  qed
  with r inv1 show ?thesis unfolding st by auto
qed

lemma update_asteroid_shielded:
  assumes "g_ship (fst st) = sh \<and> g_lives (fst st) = l"
    and "ship_alive sh = 0 \<or> 0 < ship_invincible_timer sh"
  shows "g_ship (fst (update_asteroid i st)) = sh \<and> g_lives (fst (update_asteroid i st)) = l"
proof -
  obtain s c where st: "st = (s, c)" by (cases st)
  from update_asteroid_form [of s i c] obtain s1 where
    f: "g_ship s1 = g_ship s" "g_lives s1 = g_lives s" and
    r: "fst (update_asteroid i (s, c)) = ship_collision i s1 \<or> fst (update_asteroid i (s, c)) = s1"
    by blast
  from assms f have "ship_collision i s1 = s1" by (simp add: ship_collision_shielded st)
  with r f assms(1) show ?thesis unfolding st by auto
qed

lemma update_game_result:
  assumes "st = fold update_asteroid [0..<MAX_ASTEROIDS] (fold update_bullet [0..<MAX_BULLETS] (update_ship s), 0)"
  shows "\<exists>B A r. update_game s =
     Some (if snd st = 0 \<and> g_game_over (fst st) = 0
           then (fst st)\<lparr>g_level := g_level (fst st) + 1, g_ship := respawn_ship, g_bullets := B,
                 g_asteroids := A, rand_src := r\<rparr>
           else fst st)"
proof -
  have u: "update_game s =
     (if snd st = 0 \<and> g_game_over (fst st) = 0
      then setup_level ((fst st)\<lparr>g_level := g_level (fst st) + 1\<rparr>)
      else Some (fst st))"
    unfolding assms by (simp add: update_game_def Let_def split_beta)
  obtain B A r where
    "setup_level ((fst st)\<lparr>g_level := g_level (fst st) + 1\<rparr>) =
       Some ((fst st)\<lparr>g_level := g_level (fst st) + 1, g_ship := respawn_ship, g_bullets := B,
               g_asteroids := A, rand_src := r\<rparr>)"
    using setup_level_total [of "(fst st)\<lparr>g_level := g_level (fst st) + 1\<rparr>"] by auto
  with u have "update_game s =
     Some (if snd st = 0 \<and> g_game_over (fst st) = 0
           then (fst st)\<lparr>g_level := g_level (fst st) + 1, g_ship := respawn_ship, g_bullets := B,
                 g_asteroids := A, rand_src := r\<rparr>
           else fst st)"
    by simp
  then show ?thesis by blast
qed

lemma main_loop_game_over: "g_game_over s \<noteq> 0 \<Longrightarrow> main_loop inps (is_running, s) = Some s"
  by (subst main_loop.simps) simp

lemma asteroid_loop_tick_inv:
  assumes "st = fold update_asteroid [0..<MAX_ASTEROIDS] (fold update_bullet [0..<MAX_BULLETS] (update_ship s), 0)"
  shows "tick_inv (g_lives s) (fst st)" and "g_level (fst st) = g_level s"
proof -
  have "tick_inv (g_lives s) (fst (fold update_bullet [0..<MAX_BULLETS] (update_ship s), 0::int))"
    by (simp add: tick_inv_def)
  then show "tick_inv (g_lives s) (fst st)"
    unfolding assms by (rule fold_update_asteroid_inv) (rule update_asteroid_tick_inv)
  have "g_level (fst (fold update_bullet [0..<MAX_BULLETS] (update_ship s), 0::int)) = g_level s" by simp
  then show "g_level (fst st) = g_level s"
    unfolding assms by (rule fold_update_asteroid_inv) (simp add: update_asteroid_level)
qed

subsection \<open>Running a tick on a concrete state\<close>

lemma update_asteroid_dead:
  "ast_alive (g_asteroids s i) = 0 \<Longrightarrow> update_asteroid i (s, c) = (s, c)"
  by (simp add: update_asteroid_def)

lemma fold_update_asteroid_dead:
  "\<forall>i\<in>set xs. ast_alive (g_asteroids s i) = 0 \<Longrightarrow> fold update_asteroid xs (s, c) = (s, c)"
  by (induction xs) (simp_all add: update_asteroid_dead)

lemma fold_update_bullet_idle:
  "\<forall>j\<in>set xs. bul_active (g_bullets s j) = 0 \<Longrightarrow> fold update_bullet xs s = s"
  by (induction xs) (simp_all add: update_bullet_def)

lemma bullet_collision_idle:
  "\<forall>j<MAX_BULLETS. bul_active (g_bullets s j) = 0 \<Longrightarrow> bullet_collision i s = s"
proof -
  assume "\<forall>j<MAX_BULLETS. bul_active (g_bullets s j) = 0"
  then have "find (bullet_hits s i) [0..<MAX_BULLETS] = None"
    unfolding find_upt_None by (simp add: bullet_hits_def)
  then show ?thesis by (simp add: bullet_collision_def)
qed

lemma hypotf_0 [simp]: "hypotf 0 0 = 0"
  by (simp add: hypotf_def)

lemma upt_50: "[0..<MAX_ASTEROIDS] = 0 # [1..<MAX_ASTEROIDS]"
  by (simp add: upt_conv_Cons)

lemma crash_tick:
  assumes "t = 0 \<or> t = 1"
  shows "\<exists>s'. update_game (crash l t) = Some s' \<and> g_lives s' = l - 1 \<and>
     g_level s' = 1 \<and>
     (if l - 1 \<le> 0 then g_game_over s' = 1 \<and> ship_alive (g_ship s') = 0 else g_ship s' = respawn_ship)"
proof -
  define st where "st = fold update_asteroid [0..<MAX_ASTEROIDS]
     (fold update_bullet [0..<MAX_BULLETS] (update_ship (crash l t)), 0)"
  define s1 where "s1 = update_ship (crash l t)"
  have s1: "s1 = crash l 0"
    using assms by (auto simp add: s1_def crash_def update_ship_def game0_def respawn_ship_def Let_def wrap_coordinates_def)
  have s2: "fold update_bullet [0..<MAX_BULLETS] s1 = s1"
    by (rule fold_update_bullet_idle) (simp add: s1 crash_def game0_def bullet0_def)
  define s3 where "s3 = fst (update_asteroid 0 (s1, 0))"
  have u0: "update_asteroid 0 (s1, 0) = (s3, 1)"
    by (simp add: s3_def update_asteroid_def Let_def split_beta s1 crash_def game0_def rock_def asteroid0_def)
  have s3: "g_lives s3 = l - 1 \<and> g_level s3 = 1 \<and>
     (if l - 1 \<le> 0 then g_game_over s3 = 1 \<and> ship_alive (g_ship s3) = 0 else g_ship s3 = respawn_ship)
     \<and> (\<forall>i\<in>set [1..<MAX_ASTEROIDS]. ast_alive (g_asteroids s3 i) = 0)"
    unfolding s3_def s1
    by (simp add: update_asteroid_def Let_def split_beta crash_def game0_def rock_def asteroid0_def
        bullet0_def bullet_collision_idle wrap_coordinates_def ship_collision_def respawn_ship_def
        Mix_PlayChannel_def)
  have "st = (s3, 1)"
    unfolding st_def s1_def [symmetric] s2 upt_50
    using s3 by (simp add: u0 fold_update_asteroid_dead)
  with update_game_result [OF st_def] have "update_game (crash l t) = Some s3" by simp
  with s3 show ?thesis by simp
qed

subsection \<open>The invincible ship\<close>

text \<open>
  Against claim C5 as stated: \<^verbatim>\<open>update_game\<close> decrements the invincibility timer before
  it tests the asteroids. A ship that enters the tick alive with timer 1 is tested with
  timer 0, and the asteroid on it takes a life.
\<close>

theorem invincible_timer_one_counterexample:
  "ship_alive (g_ship (crash 3 1)) = 1 \<and> ship_invincible_timer (g_ship (crash 3 1)) = 1 \<and>
   g_lives (crash 3 1) = 3 \<and> (\<exists>s'. update_game (crash 3 1) = Some s' \<and> g_lives s' = 2)"
proof -
  from crash_tick [of 1 3] obtain s' where "update_game (crash 3 1) = Some s'" and "g_lives s' = 2"
    by auto
  then show ?thesis by (auto simp: crash_def respawn_ship_def)
qed

text \<open>
  Claim C5, amended: if the ship is alive and its invincibility timer is greater than 0
  when an asteroid is tested against it, no collision is registered whatever the
  distance (\<^verbatim>\<open>ship_collision\<close> changes nothing). For a whole tick this holds when the
  ship enters the tick alive with a timer greater than 1, so that the timer is still
  greater than 0 after the decrement of the tick: the tick ends with the ship alive and
  the lives unchanged.
\<close>

theorem invincible_ship_survives_tick:
  "(ship_alive (g_ship s) \<noteq> 0 \<and> 0 < ship_invincible_timer (g_ship s) \<longrightarrow> ship_collision i s = s) \<and>
   (ship_alive (g_ship s) \<noteq> 0 \<and> 1 < ship_invincible_timer (g_ship s) \<longrightarrow>
      (\<exists>s'. update_game s = Some s' \<and> ship_alive (g_ship s') \<noteq> 0 \<and> g_lives s' = g_lives s))"
proof (intro conjI impI)
  assume "ship_alive (g_ship s) \<noteq> 0 \<and> 0 < ship_invincible_timer (g_ship s)"
  then show "ship_collision i s = s" by (simp add: ship_collision_shielded)
next
  assume a: "ship_alive (g_ship s) \<noteq> 0 \<and> 1 < ship_invincible_timer (g_ship s)"
  define s2 where "s2 = fold update_bullet [0..<MAX_BULLETS] (update_ship s)"
  define st where "st = fold update_asteroid [0..<MAX_ASTEROIDS] (s2, 0)"
  have t: "ship_alive (g_ship s2) \<noteq> 0" "0 < ship_invincible_timer (g_ship s2)"
    using a by (simp_all add: s2_def update_ship_timer)
  have "g_ship (fst (s2, 0::int)) = g_ship s2 \<and> g_lives (fst (s2, 0::int)) = g_lives s" by (simp add: s2_def)
  then have "g_ship (fst st) = g_ship s2 \<and> g_lives (fst st) = g_lives s"
    unfolding st_def
  proof (rule fold_update_asteroid_inv)
    fix i and st :: "game \<times> int"
    assume "g_ship (fst st) = g_ship s2 \<and> g_lives (fst st) = g_lives s"
    then show "g_ship (fst (update_asteroid i st)) = g_ship s2 \<and> g_lives (fst (update_asteroid i st)) = g_lives s"
      using t by (intro update_asteroid_shielded) simp_all
  qed
  with t have inv: "ship_alive (g_ship (fst st)) \<noteq> 0" "g_lives (fst st) = g_lives s" by simp_all
  from update_game_result [OF st_def [unfolded s2_def]] obtain s' where
    s': "update_game s = Some s'" and
    l: "g_lives s' = g_lives (fst st)" and
    g: "g_ship s' = respawn_ship \<or> s' = fst st"
    by (cases "snd st = 0 \<and> g_game_over (fst st) = 0") auto
  from inv l g have "ship_alive (g_ship s') \<noteq> 0 \<and> g_lives s' = g_lives s"
    by (auto simp: respawn_ship_def)
  with s' show "\<exists>s'. update_game s = Some s' \<and> ship_alive (g_ship s') \<noteq> 0 \<and> g_lives s' = g_lives s"
    by blast
qed

theorem invincible_ship_survives_tick_witness:
  "ship_alive (g_ship (crash 3 180)) = 1 \<and> ship_invincible_timer (g_ship (crash 3 180)) = 180 \<and>
   ship_collision 0 (crash 3 180) = crash 3 180 \<and>
   (\<exists>s'. update_game (crash 3 180) = Some s' \<and> ship_alive (g_ship s') \<noteq> 0 \<and> g_lives s' = 3)"
proof -
  have a: "ship_alive (g_ship (crash 3 180)) = 1" "ship_invincible_timer (g_ship (crash 3 180)) = 180"
    "g_lives (crash 3 180) = 3"
    by (simp_all add: crash_def respawn_ship_def)
  with invincible_ship_survives_tick [of "crash 3 180" 0] show ?thesis by simp
qed

subsection \<open>The last life\<close>

text \<open>
  Claim C6: when a tick of \<^verbatim>\<open>update_game\<close> takes a life (the only way the lives go down
  is the player-asteroid collision) and leaves no life, then at the end of that tick
  the game-over flag is 1, the ship is dead (it was not respawned), the level is the
  one the tick started with (the level-completion branch with its \<^verbatim>\<open>setup_level\<close> did
  not run), and the loop of \<^verbatim>\<open>main\<close> entered with that state returns at once, without
  another tick.
\<close>

theorem game_over_on_last_life:
  assumes "update_game s = Some s'" and "g_lives s' < g_lives s" and "g_lives s' \<le> 0"
  shows "g_game_over s' = 1 \<and> ship_alive (g_ship s') = 0 \<and> g_level s' = g_level s \<and>
         main_loop inps (is_running, s') = Some s'"
proof -
  define st where "st = fold update_asteroid [0..<MAX_ASTEROIDS]
     (fold update_bullet [0..<MAX_BULLETS] (update_ship s), 0)"
  note inv = asteroid_loop_tick_inv [OF st_def]
  from update_game_result [OF st_def] assms(1) have
    l: "g_lives s' = g_lives (fst st)" and
    g: "g_game_over (fst st) = 0 \<or> s' = fst st"
    by (cases "snd st = 0 \<and> g_game_over (fst st) = 0"; auto)+
  from inv(1) l assms(2,3) have o: "g_game_over (fst st) = 1 \<and> ship_alive (g_ship (fst st)) = 0"
    by (auto simp: tick_inv_def split: if_splits)
  with g have same: "s' = fst st" by simp
  from o have "main_loop inps (is_running, s') = Some s'"
    unfolding same by (simp add: main_loop_game_over)
  with o inv(2) show ?thesis unfolding same by simp
qed

theorem game_over_on_last_life_witness:
  "\<exists>s'. update_game (crash 1 0) = Some s' \<and> g_lives s' < g_lives (crash 1 0) \<and> g_lives s' \<le> 0 \<and>
     g_game_over s' = 1 \<and> ship_alive (g_ship s') = 0 \<and> g_level s' = g_level (crash 1 0) \<and>
     main_loop (sconst input0) (1, s') = Some s'"
proof -
  from crash_tick [of 0 1] obtain s' where u: "update_game (crash 1 0) = Some s'" and l: "g_lives s' = 0"
    by auto
  have c: "g_lives (crash 1 0) = 1" by (simp add: crash_def)
  have "g_lives s' < g_lives (crash 1 0)" "g_lives s' \<le> 0" by (simp_all add: l c)
  from game_over_on_last_life [OF u this, of "sconst input0" 1] u l c show ?thesis by simp
qed

subsection \<open>One life per tick\<close>

text \<open>
  Claim C10: a tick of \<^verbatim>\<open>update_game\<close> always returns, and it takes at most one life.
  When it has taken one, the ship is dead with the game over, or it is alive with the
  full invincibility timer 180: after the first hit no asteroid of the same tick passes
  the guard of the collision.
\<close>

theorem one_life_per_tick:
  "\<exists>s'. update_game s = Some s' \<and>
     (g_lives s' = g_lives s \<or>
      g_lives s' = g_lives s - 1 \<and>
        (g_game_over s' = 1 \<and> ship_alive (g_ship s') = 0 \<or>
         ship_alive (g_ship s') = 1 \<and> ship_invincible_timer (g_ship s') = 180))"
proof -
  define st where "st = fold update_asteroid [0..<MAX_ASTEROIDS]
     (fold update_bullet [0..<MAX_BULLETS] (update_ship s), 0)"
  note inv = asteroid_loop_tick_inv(1) [OF st_def]
  from update_game_result [OF st_def] obtain s' where
    s': "update_game s = Some s'" and
    l: "g_lives s' = g_lives (fst st)" and
    g: "snd st = 0 \<and> g_game_over (fst st) = 0 \<and> g_ship s' = respawn_ship \<and> g_game_over s' = 0 \<or> s' = fst st"
    by (cases "snd st = 0 \<and> g_game_over (fst st) = 0") auto
  from inv l g have "g_lives s' = g_lives s \<or>
      g_lives s' = g_lives s - 1 \<and>
        (g_game_over s' = 1 \<and> ship_alive (g_ship s') = 0 \<or>
         ship_alive (g_ship s') = 1 \<and> ship_invincible_timer (g_ship s') = 180)"
    by (auto simp: tick_inv_def respawn_ship_def split: if_splits)
  with s' show ?thesis by blast
qed

theorem one_life_per_tick_witness:
  "\<exists>s'. update_game (crash 3 0) = Some s' \<and> g_lives s' = g_lives (crash 3 0) - 1 \<and>
     ship_alive (g_ship s') = 1 \<and> ship_invincible_timer (g_ship s') = 180"
proof -
  from crash_tick [of 0 3] obtain s1 where u: "update_game (crash 3 0) = Some s1" and l: "g_lives s1 = 2"
    and r: "g_ship s1 = respawn_ship"
    by auto
  have c: "g_lives (crash 3 0) = 3" by (simp add: crash_def)
  from r have "ship_alive (g_ship s1) \<noteq> 0" by (simp add: respawn_ship_def)
  with one_life_per_tick [of "crash 3 0"] u l c show ?thesis by auto
qed

subsection \<open>The level setup\<close>

lemma length_filter_less_upt: "length (filter (\<lambda>i. i < n) [0..<m]) = min n m"
  by (induction m) auto

text \<open>The spawning loop of the level setup fills the pool from slot \<open>k\<close> upwards.\<close>

lemma spawn_level_asteroids_fill:
  assumes "ship_x (g_ship s) = 400" and "ship_y (g_ship s) = 300"
    and "k + n \<le> MAX_ASTEROIDS"
    and "\<forall>i<MAX_ASTEROIDS. ast_alive (g_asteroids s i) = (if i < k then 1 else 0)"
    and "\<forall>i<k. ast_size (g_asteroids s i) = 3 \<and>
           200 \<le> hypotf (ast_x (g_asteroids s i) - 400) (ast_y (g_asteroids s i) - 300)"
  shows "\<exists>A r. spawn_level_asteroids n s = Some (s\<lparr>g_asteroids := A, rand_src := r\<rparr>) \<and>
           (\<forall>i<MAX_ASTEROIDS. ast_alive (A i) = (if i < k + n then 1 else 0)) \<and>
           (\<forall>i<k + n. ast_size (A i) = 3 \<and> 200 \<le> hypotf (ast_x (A i) - 400) (ast_y (A i) - 300))"
  using assms
proof (induction n arbitrary: s k)
  case 0
  have "s = s\<lparr>g_asteroids := g_asteroids s, rand_src := rand_src s\<rparr>" by simp
  with 0 show ?case
    by (metis add.right_neutral spawn_level_asteroids.simps(1))
next
  case (Suc n)
  from pick_position_center [OF Suc.prems(1,2)] obtain x y r where
    p: "pick_position s = Some (x, y, s\<lparr>rand_src := r\<rparr>)" and far: "200 \<le> hypotf (x - 400) (y - 300)"
    by blast
  define s1 where "s1 = s\<lparr>rand_src := r\<rparr>"
  have k: "k < MAX_ASTEROIDS" using Suc.prems(3) by simp
  have "find (\<lambda>i. ast_alive (g_asteroids s1 i) = 0) [0..<MAX_ASTEROIDS] = Some k"
    unfolding find_upt_Some using Suc.prems(4) k by (simp add: s1_def)
  from spawn_asteroid_slot [OF _ this, of 3 x y] obtain a r' where
    sp: "spawn_asteroid x y 3 s1 = s1\<lparr>g_asteroids := (g_asteroids s1)(k := a), rand_src := r'\<rparr>"
    and a: "ast_alive a = 1" "ast_x a = x" "ast_y a = y" "ast_size a = 3"
    by auto
  define s2 where "s2 = s\<lparr>g_asteroids := (g_asteroids s)(k := a), rand_src := r'\<rparr>"
  have s2: "spawn_asteroid x y 3 s1 = s2" unfolding sp by (simp add: s1_def s2_def)
  have "\<exists>A r. spawn_level_asteroids n s2 = Some (s2\<lparr>g_asteroids := A, rand_src := r\<rparr>) \<and>
           (\<forall>i<MAX_ASTEROIDS. ast_alive (A i) = (if i < Suc k + n then 1 else 0)) \<and>
           (\<forall>i<Suc k + n. ast_size (A i) = 3 \<and> 200 \<le> hypotf (ast_x (A i) - 400) (ast_y (A i) - 300))"
  proof (rule Suc.IH)
    show "ship_x (g_ship s2) = 400" "ship_y (g_ship s2) = 300"
      using Suc.prems(1,2) by (simp_all add: s2_def)
    show "Suc k + n \<le> MAX_ASTEROIDS" using Suc.prems(3) by simp
    show "\<forall>i<MAX_ASTEROIDS. ast_alive (g_asteroids s2 i) = (if i < Suc k then 1 else 0)"
      using Suc.prems(4) a(1) by (auto simp: s2_def less_Suc_eq)
    show "\<forall>i<Suc k. ast_size (g_asteroids s2 i) = 3 \<and>
           200 \<le> hypotf (ast_x (g_asteroids s2 i) - 400) (ast_y (g_asteroids s2 i) - 300)"
      using Suc.prems(5) a far by (auto simp: s2_def less_Suc_eq)
  qed
  then obtain A r'' where
    1: "spawn_level_asteroids n s2 = Some (s2\<lparr>g_asteroids := A, rand_src := r''\<rparr>)" and
    2: "\<forall>i<MAX_ASTEROIDS. ast_alive (A i) = (if i < k + Suc n then 1 else 0)" and
    3: "\<forall>i<k + Suc n. ast_size (A i) = 3 \<and> 200 \<le> hypotf (ast_x (A i) - 400) (ast_y (A i) - 300)"
    by auto
  have "spawn_level_asteroids (Suc n) s = Some (s\<lparr>g_asteroids := A, rand_src := r''\<rparr>)"
    using 1 by (simp add: p s1_def [symmetric] s2) (simp add: s2_def)
  with 2 3 show ?case by blast
qed

text \<open>
  Claim C8: with \<open>g_level + 3 \<le> 50\<close>, \<^verbatim>\<open>setup_level\<close> returns, and in the state it
  returns the ship is at (400, 300) with velocity 0, heading \<open>- 90\<close>, alive, with
  invincibility timer 180; no bullet slot is active; exactly \<open>g_level + 3\<close> asteroid
  slots are alive, and each of them has size 3 and lies at least 200 from the ship.
\<close>

theorem setup_level_spawns:
  assumes "g_level s + 3 \<le> 50"
  shows "\<exists>s'. setup_level s = Some s' \<and>
     g_ship s' = \<lparr>ship_x = 400, ship_y = 300, ship_vx = 0, ship_vy = 0, ship_angle = - 90,
                  ship_alive = 1, ship_invincible_timer = 180\<rparr> \<and>
     active_bullets s' = 0 \<and>
     alive_asteroids s' = nat (g_level s + 3) \<and>
     length (filter (\<lambda>i. ast_alive (g_asteroids s' i) = 1 \<and> ast_size (g_asteroids s' i) = 3 \<and>
          200 \<le> hypotf (ast_x (g_asteroids s' i) - ship_x (g_ship s'))
                       (ast_y (g_asteroids s' i) - ship_y (g_ship s'))) [0..<MAX_ASTEROIDS])
       = nat (g_level s + 3)"
proof -
  define n where "n = nat (g_level s + 3)"
  define s1 where "s1 = fold clear_asteroid [0..<MAX_ASTEROIDS] (fold clear_bullet [0..<MAX_BULLETS] (s\<lparr>g_ship := respawn_ship\<rparr>))"
  have s1: "s1 = s\<lparr>g_ship := respawn_ship,
       g_bullets := (\<lambda>i. if i < MAX_BULLETS then (g_bullets s i)\<lparr>bul_active := 0\<rparr> else g_bullets s i),
       g_asteroids := (\<lambda>i. if i < MAX_ASTEROIDS then (g_asteroids s i)\<lparr>ast_alive := 0\<rparr> else g_asteroids s i)\<rparr>"
    unfolding s1_def fold_clear_bullet fold_clear_asteroid by (simp cong: if_cong)
  have lv: "g_level s1 = g_level s" by (subst s1) simp
  have e: "setup_level s = spawn_level_asteroids n s1"
    unfolding setup_level_def Let_def s1_def [symmetric] by (simp add: lv n_def)
  have "\<exists>A r. spawn_level_asteroids n s1 = Some (s1\<lparr>g_asteroids := A, rand_src := r\<rparr>) \<and>
           (\<forall>i<MAX_ASTEROIDS. ast_alive (A i) = (if i < 0 + n then 1 else 0)) \<and>
           (\<forall>i<0 + n. ast_size (A i) = 3 \<and> 200 \<le> hypotf (ast_x (A i) - 400) (ast_y (A i) - 300))"
  proof (rule spawn_level_asteroids_fill)
    show "ship_x (g_ship s1) = 400" "ship_y (g_ship s1) = 300"
      by (simp_all add: s1 respawn_ship_def)
    show "0 + n \<le> MAX_ASTEROIDS" using assms by (simp add: n_def)
    show "\<forall>i<MAX_ASTEROIDS. ast_alive (g_asteroids s1 i) = (if i < 0 then 1 else 0)"
      by (simp add: s1)
    show "\<forall>i<0. ast_size (g_asteroids s1 i) = 3 \<and>
           200 \<le> hypotf (ast_x (g_asteroids s1 i) - 400) (ast_y (g_asteroids s1 i) - 300)"
      by simp
  qed
  then obtain A r where
    1: "spawn_level_asteroids n s1 = Some (s1\<lparr>g_asteroids := A, rand_src := r\<rparr>)" and
    2: "\<forall>i<MAX_ASTEROIDS. ast_alive (A i) = (if i < n then 1 else 0)" and
    3: "\<forall>i<n. ast_size (A i) = 3 \<and> 200 \<le> hypotf (ast_x (A i) - 400) (ast_y (A i) - 300)"
    by auto
  define s' where "s' = s1\<lparr>g_asteroids := A, rand_src := r\<rparr>"
  have n50: "n \<le> 50" using assms by (simp add: n_def)
  have ship: "g_ship s' = \<lparr>ship_x = 400, ship_y = 300, ship_vx = 0, ship_vy = 0, ship_angle = - 90,
                  ship_alive = 1, ship_invincible_timer = 180\<rparr>"
    by (simp add: s'_def s1 respawn_ship_def)
  have bul: "active_bullets s' = 0"
    by (simp add: active_bullets_def s'_def s1)
  have "filter (\<lambda>i. ast_alive (g_asteroids s' i) \<noteq> 0) [0..<MAX_ASTEROIDS] = filter (\<lambda>i. i < n) [0..<MAX_ASTEROIDS]"
    by (rule filter_cong) (use 2 in \<open>auto simp: s'_def\<close>)
  then have al: "alive_asteroids s' = n"
    using n50 by (simp add: alive_asteroids_def length_filter_less_upt)
  have "filter (\<lambda>i. ast_alive (g_asteroids s' i) = 1 \<and> ast_size (g_asteroids s' i) = 3 \<and>
          200 \<le> hypotf (ast_x (g_asteroids s' i) - ship_x (g_ship s'))
                       (ast_y (g_asteroids s' i) - ship_y (g_ship s'))) [0..<MAX_ASTEROIDS]
      = filter (\<lambda>i. i < n) [0..<MAX_ASTEROIDS]"
    by (rule filter_cong) (use 2 3 in \<open>auto simp: s'_def s1 respawn_ship_def\<close>)
  then have far: "length (filter (\<lambda>i. ast_alive (g_asteroids s' i) = 1 \<and> ast_size (g_asteroids s' i) = 3 \<and>
          200 \<le> hypotf (ast_x (g_asteroids s' i) - ship_x (g_ship s'))
                       (ast_y (g_asteroids s' i) - ship_y (g_ship s'))) [0..<MAX_ASTEROIDS]) = n"
    using n50 by (simp add: length_filter_less_upt)
  from e 1 ship bul al far show ?thesis
    unfolding s'_def [symmetric] n_def [symmetric] by simp
qed

theorem setup_level_spawns_witness:
  "g_level game0 + 3 \<le> 50 \<and>
   (\<exists>s'. setup_level game0 = Some s' \<and> ship_x (g_ship s') = 400 \<and> ship_y (g_ship s') = 300 \<and>
      ship_invincible_timer (g_ship s') = 180 \<and>
      active_bullets s' = 0 \<and> alive_asteroids s' = 4)"
proof -
  have l: "g_level game0 = 1" by (simp add: game0_def)
  then have "g_level game0 + 3 \<le> 50" by simp
  from this setup_level_spawns [OF this] show ?thesis by (auto simp: l)
qed

subsection \<open>Firing\<close>

lemma length_filter_upd:
  assumes "i < n" and "\<not> P (f i)" and "P v"
  shows "length (filter (\<lambda>k. P ((f(i := v)) k)) [0..<n]) = Suc (length (filter (\<lambda>k. P (f k)) [0..<n]))"
  using assms(1)
proof (induction n)
  case 0
  then show ?case by simp
next
  case (Suc n)
  show ?case
  proof (cases "i = n")
    case True
    have "filter (\<lambda>k. P ((f(i := v)) k)) [0..<n] = filter (\<lambda>k. P (f k)) [0..<n]"
      by (rule filter_cong) (simp_all add: True)
    with True assms(2,3) show ?thesis by simp
  next
    case False
    with Suc.prems have "i < n" by simp
    from Suc.IH [OF this] False show ?thesis by simp
  qed
qed

lemma fire_bullet_slot:
  assumes "ship_alive (g_ship s) \<noteq> 0"
    and "find (\<lambda>i. bul_active (g_bullets s i) = 0) [0..<MAX_BULLETS] = Some i"
  shows "\<exists>b m. fire_bullet s = s\<lparr>g_bullets := (g_bullets s)(i := b), mixer := m\<rparr> \<and>
           bul_active b = 1 \<and> bul_lifetime b = 60"
proof -
  have "fire_bullet s = s\<lparr>g_bullets := (g_bullets s)(i := g_bullets (fire_bullet s) i),
          mixer := mixer (fire_bullet s)\<rparr>"
    using assms by (simp add: fire_bullet_def Let_def Mix_PlayChannel_def)
  moreover have "bul_active (g_bullets (fire_bullet s) i) = 1 \<and> bul_lifetime (g_bullets (fire_bullet s) i) = 60"
    using assms by (simp add: fire_bullet_def Let_def Mix_PlayChannel_def)
  ultimately show ?thesis by blast
qed

lemma fire_bullet_one:
  assumes "ship_alive (g_ship s) \<noteq> 0" and "active_bullets s < MAX_BULLETS"
  shows "active_bullets (fire_bullet s) = active_bullets s + 1 \<and>
     (\<exists>i. i < MAX_BULLETS \<and> bul_active (g_bullets s i) = 0 \<and>
          bul_active (g_bullets (fire_bullet s) i) = 1 \<and>
          bul_lifetime (g_bullets (fire_bullet s) i) = 60 \<and>
          (\<forall>k. k = i \<or> g_bullets (fire_bullet s) k = g_bullets s k))"
proof -
  from assms(2) have "length (filter (\<lambda>i. bul_active (g_bullets s i) \<noteq> 0) [0..<MAX_BULLETS]) \<noteq> MAX_BULLETS"
    by (simp add: active_bullets_def)
  then have "\<not> (\<forall>k<MAX_BULLETS. bul_active (g_bullets s k) \<noteq> 0)"
    unfolding filter_upt_all .
  then have "find (\<lambda>i. bul_active (g_bullets s i) = 0) [0..<MAX_BULLETS] \<noteq> None"
    unfolding find_upt_None by simp
  then obtain i where i: "find (\<lambda>i. bul_active (g_bullets s i) = 0) [0..<MAX_BULLETS] = Some i"
    by blast
  then have lt: "i < MAX_BULLETS" and free: "bul_active (g_bullets s i) = 0"
    unfolding find_upt_Some by simp_all
  from fire_bullet_slot [OF assms(1) i] obtain b m where
    f: "fire_bullet s = s\<lparr>g_bullets := (g_bullets s)(i := b), mixer := m\<rparr>" and
    b: "bul_active b = 1" "bul_lifetime b = 60"
    by blast
  have "length (filter (\<lambda>k. bul_active (((g_bullets s)(i := b)) k) \<noteq> 0) [0..<MAX_BULLETS])
      = Suc (length (filter (\<lambda>k. bul_active (g_bullets s k) \<noteq> 0) [0..<MAX_BULLETS]))"
    by (rule length_filter_upd [where P = "\<lambda>b. bul_active b \<noteq> 0"]) (use lt free b in simp_all)
  then have c: "active_bullets (fire_bullet s) = active_bullets s + 1"
    by (simp add: active_bullets_def f)
  have "bul_active (g_bullets (fire_bullet s) i) = 1 \<and>
          bul_lifetime (g_bullets (fire_bullet s) i) = 60 \<and>
          (\<forall>k. k = i \<or> g_bullets (fire_bullet s) k = g_bullets s k)"
    by (simp add: f b)
  with c lt free show ?thesis by blast
qed

lemma handle_input_dead:
  "ship_alive (g_ship s) = 0 \<Longrightarrow> snd (handle_input inp (is_running, s)) = s"
  by (simp add: handle_input_def Let_def)

text \<open>The fire section runs on a state whose bullets, clock stamp and ship flag are those
  \<^verbatim>\<open>handle_input\<close> was entered with.\<close>

lemma handle_input_fire:
  assumes "ship_alive (g_ship s) \<noteq> 0"
  shows "\<exists>s1. g_bullets s1 = g_bullets s \<and> last_shot s1 = last_shot s \<and>
           ship_alive (g_ship s1) = ship_alive (g_ship s) \<and>
           snd (handle_input inp (is_running, s)) =
             (if key_space inp \<and> 200 < ticks_test inp - last_shot s
              then (fire_bullet s1)\<lparr>last_shot := ticks_store inp\<rparr> else s1)"
proof -
  define sh where "sh = (let sh = g_ship s;
      sh = (if key_left inp then sh\<lparr>ship_angle := ship_angle sh - SHIP_TURN_SPEED\<rparr> else sh)
      in (if key_right inp then sh\<lparr>ship_angle := ship_angle sh + SHIP_TURN_SPEED\<rparr> else sh))"
  define s1 where "s1 = (let s = s\<lparr>g_ship := sh\<rparr> in
                 (if key_up inp then
                        let sh = g_ship s;
                            sh = sh\<lparr>ship_vx := ship_vx sh + SHIP_ACCELERATION * cosf (ship_angle sh * M_PI / 180)\<rparr>;
                            sh = sh\<lparr>ship_vy := ship_vy sh + SHIP_ACCELERATION * sinf (ship_angle sh * M_PI / 180)\<rparr>;
                            s = s\<lparr>g_ship := sh\<rparr>
                        in if g_thrust_sound s \<and> \<not> mix_playing1 inp
                           then Mix_PlayChannel 1 Thrust (- 1) s else s
                      else Mix_HaltChannel 1 s))"
  have al: "ship_alive sh = ship_alive (g_ship s)"
    by (simp add: sh_def Let_def)
  have 1: "g_bullets s1 = g_bullets s \<and> last_shot s1 = last_shot s \<and>
           ship_alive (g_ship s1) = ship_alive (g_ship s)"
    by (simp add: s1_def Let_def Mix_PlayChannel_def Mix_HaltChannel_def al)
  have "snd (handle_input inp (is_running, s)) =
             (if key_space inp then if 200 < ticks_test inp - last_shot s1
              then (fire_bullet s1)\<lparr>last_shot := ticks_store inp\<rparr> else s1 else s1)"
    using assms
    by (simp only: handle_input_def s1_def sh_def Let_def prod.case if_False snd_conv)
  with 1 have "snd (handle_input inp (is_running, s)) =
             (if key_space inp \<and> 200 < ticks_test inp - last_shot s
              then (fire_bullet s1)\<lparr>last_shot := ticks_store inp\<rparr> else s1)"
    by simp
  with 1 show ?thesis by blast
qed

lemma handle_input_cold:
  assumes "\<not> (ship_alive (g_ship s) \<noteq> 0 \<and> key_space inp \<and> 200 < ticks_test inp - last_shot s)"
  shows "g_bullets (snd (handle_input inp (is_running, s))) = g_bullets s \<and>
         last_shot (snd (handle_input inp (is_running, s))) = last_shot s"
proof (cases "ship_alive (g_ship s) = 0")
  case True
  then show ?thesis by (simp add: handle_input_dead)
next
  case False
  from handle_input_fire [OF False, of inp is_running] assms False show ?thesis by auto
qed

lemma handle_input_hot:
  assumes "ship_alive (g_ship s) \<noteq> 0" and "key_space inp" and "200 < ticks_test inp - last_shot s"
  shows "\<exists>s1. g_bullets s1 = g_bullets s \<and> ship_alive (g_ship s1) \<noteq> 0 \<and>
           snd (handle_input inp (is_running, s)) = (fire_bullet s1)\<lparr>last_shot := ticks_store inp\<rparr>"
  using handle_input_fire [OF assms(1), of inp is_running] assms by auto

lemma ticks_within:
  fixes a b c :: "32 word"
  assumes "a \<le> b" and "b \<le> c" and "c - a \<le> 200"
  shows "c - b \<le> 200"
proof -
  from assms(1,2) have ac: "a \<le> c" by simp
  have "unat (c - b) = unat c - unat b" using assms(2) by (rule unat_sub)
  moreover have "unat (c - a) = unat c - unat a" using ac by (rule unat_sub)
  moreover have "unat a \<le> unat b" using assms(1) by (simp add: word_le_nat_alt)
  moreover have "unat (c - a) \<le> unat (200 :: 32 word)" using assms(3) by (simp add: word_le_nat_alt)
  ultimately have "unat (c - b) \<le> unat (200 :: 32 word)" by linarith
  then show ?thesis by (simp add: word_le_nat_alt)
qed

text \<open>
  Against claim C7 as stated: the test of \<^verbatim>\<open>handle_input\<close> is
  \<^verbatim>\<open>SDL_GetTicks() - last_shot > 200\<close>. A request exactly 200 ms after the last
  honoured one, with the ship alive and the pool empty, creates no bullet.
\<close>

theorem fire_at_200ms_counterexample:
  "ship_alive (g_ship cooling) = 1 \<and> key_space (press 1200) \<and> active_bullets cooling = 0 \<and>
   ticks_test (press 1200) - last_shot cooling = 200 \<and>
   g_bullets (snd (handle_input (press 1200) (1, cooling))) = g_bullets cooling \<and>
   last_shot (snd (handle_input (press 1200) (1, cooling))) = 1000"
proof -
  have a: "ship_alive (g_ship cooling) = 1" "key_space (press 1200)" "active_bullets cooling = 0"
    "ticks_test (press 1200) - last_shot cooling = 200" "last_shot cooling = 1000"
    by (simp_all add: cooling_def game0_def respawn_ship_def press_def input0_def active_bullets_def bullet0_def)
  then have "\<not> (ship_alive (g_ship cooling) \<noteq> 0 \<and> key_space (press 1200) \<and>
     200 < ticks_test (press 1200) - last_shot cooling)" by simp
  from handle_input_cold [OF this, of 1] a show ?thesis by simp
qed

text \<open>
  Claim C7, amended. With the ship alive and the space bar down, a fire request is
  honoured if and only if more than 200 ms have passed on the 32-bit millisecond clock
  since \<open>last_shot\<close>, the time stored at the last honoured request (0 at the start).
  A honoured request stores the clock in \<open>last_shot\<close>; with a free bullet slot it makes
  exactly one more bullet active, in a slot that was free, with lifetime 60, and leaves
  the other slots as they were; with a full pool the bullets are unchanged. A request
  that is not honoured leaves the bullets and \<open>last_shot\<close> unchanged. So of two requests
  at most 200 ms apart (the clock not wrapping between them), the first one honoured,
  the second creates no bullet.
\<close>

theorem fire_cooldown:
  assumes "handle_input inp (is_running, s) = (is_running', s')"
  shows "(if ship_alive (g_ship s) \<noteq> 0 \<and> key_space inp \<and> 200 < ticks_test inp - last_shot s
          then last_shot s' = ticks_store inp \<and>
               (if active_bullets s < MAX_BULLETS
                then active_bullets s' = active_bullets s + 1 \<and>
                     (\<exists>i. i < MAX_BULLETS \<and> bul_active (g_bullets s i) = 0 \<and>
                          bul_active (g_bullets s' i) = 1 \<and> bul_lifetime (g_bullets s' i) = 60 \<and>
                          (\<forall>k. k = i \<or> g_bullets s' k = g_bullets s k))
                else g_bullets s' = g_bullets s)
          else last_shot s' = last_shot s \<and> g_bullets s' = g_bullets s) \<and>
         (ship_alive (g_ship s) \<noteq> 0 \<and> key_space inp \<and> 200 < ticks_test inp - last_shot s \<and>
          ticks_test inp \<le> ticks_store inp \<and> ticks_store inp \<le> ticks_test inp2 \<and>
          ticks_test inp2 - ticks_test inp \<le> 200 \<longrightarrow>
            g_bullets (snd (handle_input inp2 (is_running', s'))) = g_bullets s')"
proof -
  from assms have s': "s' = snd (handle_input inp (is_running, s))" by simp
  show ?thesis
  proof (cases "ship_alive (g_ship s) \<noteq> 0 \<and> key_space inp \<and> 200 < ticks_test inp - last_shot s")
    case False
    from handle_input_cold [OF False, of is_running]
    have c: "last_shot s' = last_shot s \<and> g_bullets s' = g_bullets s" by (simp add: s')
    show ?thesis unfolding if_not_P [OF False] using False c by blast
  next
    case True
    from handle_input_hot [of s inp is_running] True obtain s1 where
      b: "g_bullets s1 = g_bullets s" and al: "ship_alive (g_ship s1) \<noteq> 0" and
      e: "s' = (fire_bullet s1)\<lparr>last_shot := ticks_store inp\<rparr>"
      unfolding s' by blast
    have n: "active_bullets s1 = active_bullets s" by (simp add: active_bullets_def b)
    have ls: "last_shot s' = ticks_store inp" by (simp add: e)
    have fire: "if active_bullets s < MAX_BULLETS
                then active_bullets s' = active_bullets s + 1 \<and>
                     (\<exists>i. i < MAX_BULLETS \<and> bul_active (g_bullets s i) = 0 \<and>
                          bul_active (g_bullets s' i) = 1 \<and> bul_lifetime (g_bullets s' i) = 60 \<and>
                          (\<forall>k. k = i \<or> g_bullets s' k = g_bullets s k))
                else g_bullets s' = g_bullets s"
    proof (cases "active_bullets s < MAX_BULLETS")
      case free: True
      have gb: "g_bullets s' = g_bullets (fire_bullet s1)" by (simp add: e)
      have "active_bullets s' = active_bullets (fire_bullet s1)" by (simp add: active_bullets_def gb)
      with fire_bullet_one [OF al] free n b gb show ?thesis by simp
    next
      case full: False
      have "active_bullets s1 \<le> MAX_BULLETS"
        unfolding active_bullets_def by (metis length_filter_le length_upt diff_zero)
      with full n have "length (filter (\<lambda>i. bul_active (g_bullets s1 i) \<noteq> 0) [0..<MAX_BULLETS]) = MAX_BULLETS"
        by (simp add: active_bullets_def)
      then have "\<forall>j<MAX_BULLETS. bul_active (g_bullets s1 j) \<noteq> 0" unfolding filter_upt_all .
      then have "fire_bullet s1 = s1" by (rule fire_bullet_full)
      with full b show ?thesis by (simp add: e)
    qed
    have two: "ticks_test inp \<le> ticks_store inp \<and> ticks_store inp \<le> ticks_test inp2 \<and>
          ticks_test inp2 - ticks_test inp \<le> 200 \<longrightarrow>
            g_bullets (snd (handle_input inp2 (is_running', s'))) = g_bullets s'"
    proof
      assume "ticks_test inp \<le> ticks_store inp \<and> ticks_store inp \<le> ticks_test inp2 \<and>
          ticks_test inp2 - ticks_test inp \<le> 200"
      then have "ticks_test inp2 - ticks_store inp \<le> 200" using ticks_within by blast
      then have "\<not> 200 < ticks_test inp2 - last_shot s'" by (simp add: ls not_less)
      then have "\<not> (ship_alive (g_ship s') \<noteq> 0 \<and> key_space inp2 \<and> 200 < ticks_test inp2 - last_shot s')"
        by simp
      from handle_input_cold [OF this] show "g_bullets (snd (handle_input inp2 (is_running', s'))) = g_bullets s'"
        by simp
    qed
    from True ls fire two show ?thesis by simp
  qed
qed

theorem fire_cooldown_witness:
  "ship_alive (g_ship cooling) = 1 \<and> key_space (press 1201) \<and> active_bullets cooling = 0 \<and>
   ticks_test (press 1201) - last_shot cooling = 201 \<and>
   ticks_test (press 1400) - ticks_test (press 1201) = 199 \<and>
   (\<exists>r' s'. handle_input (press 1201) (1, cooling) = (r', s') \<and> last_shot s' = 1201 \<and>
       active_bullets s' = 1 \<and>
       g_bullets (snd (handle_input (press 1400) (r', s'))) = g_bullets s') \<and>
   ticks_test (press 1100) - last_shot cooling = 100 \<and>
   (\<exists>r' s'. handle_input (press 1100) (1, cooling) = (r', s') \<and> last_shot s' = 1000 \<and>
       g_bullets s' = g_bullets cooling)"
proof -
  have a: "ship_alive (g_ship cooling) = 1" "key_space (press 1201)" "active_bullets cooling = 0"
    "ticks_test (press 1201) - last_shot cooling = 201" "last_shot cooling = 1000"
    "ticks_test (press 1400) - ticks_test (press 1201) = 199"
    "ticks_test (press 1201) = 1201" "ticks_store (press 1201) = 1201" "ticks_test (press 1400) = 1400"
    "ticks_test (press 1100) - last_shot cooling = 100"
    by (simp_all add: cooling_def game0_def respawn_ship_def press_def input0_def active_bullets_def bullet0_def)
  obtain r' s' where h: "handle_input (press 1201) (1, cooling) = (r', s')"
    by (cases "handle_input (press 1201) (1, cooling)")
  from fire_cooldown [OF h, of "press 1400"] a
  have 1: "last_shot s' = 1201 \<and> active_bullets s' = 1 \<and>
       g_bullets (snd (handle_input (press 1400) (r', s'))) = g_bullets s'"
    by simp
  obtain r2 s2 where h2: "handle_input (press 1100) (1, cooling) = (r2, s2)"
    by (cases "handle_input (press 1100) (1, cooling)")
  from fire_cooldown [OF h2, of "press 1400"] a
  have 2: "last_shot s2 = 1000 \<and> g_bullets s2 = g_bullets cooling"
    by simp
  from h 1 h2 2 a show ?thesis by simp
qed

subsection \<open>A bullet hits an asteroid\<close>

lemma bullet_hit_spawned:
  "g_asteroids (bullet_hit i j s) = g_asteroids (hit_spawned i j s)"
  "g_bullets (bullet_hit i j s) = g_bullets (hit_spawned i j s)"
  "g_score (bullet_hit i j s) = g_score s + (4 - ast_size (g_asteroids (hit_spawned i j s) i)) * 20"
  by (simp_all add: bullet_hit_def hit_spawned_def Let_def Mix_PlayChannel_def)

lemma spawn_asteroid_first:
  assumes "1 \<le> sz" and "i < MAX_ASTEROIDS" and "ast_alive (g_asteroids s i) = 0"
    and "\<forall>k<i. ast_alive (g_asteroids s k) \<noteq> 0"
  shows "\<exists>a r. spawn_asteroid x y sz s = s\<lparr>g_asteroids := (g_asteroids s)(i := a), rand_src := r\<rparr>
           \<and> ast_alive a = 1 \<and> ast_x a = x \<and> ast_y a = y \<and> ast_size a = sz"
proof -
  have "find (\<lambda>i. ast_alive (g_asteroids s i) = 0) [0..<MAX_ASTEROIDS] = Some i"
    unfolding find_upt_Some using assms(2-4) by simp
  from spawn_asteroid_slot [OF assms(1) this] show ?thesis .
qed

text \<open>
  The slot of the asteroid that was hit is free when the first child is spawned. When
  every slot below it is alive, it is the first free slot: the first child is written
  over the asteroid that was hit, and the second child and the score are computed from
  the size of that child.
\<close>

lemma hit_spawned_reuse:
  assumes "i < MAX_ASTEROIDS" and "\<forall>k<i. ast_alive (g_asteroids s k) \<noteq> 0"
    and "1 < ast_size (g_asteroids s i)"
  shows "\<exists>a r s2. s2 = s\<lparr>g_asteroids := (g_asteroids s)(i := a),
                         g_bullets := (g_bullets s)(j := (g_bullets s j)\<lparr>bul_active := 0\<rparr>),
                         rand_src := r\<rparr> \<and>
           ast_alive a = 1 \<and> ast_x a = ast_x (g_asteroids s i) \<and> ast_y a = ast_y (g_asteroids s i) \<and>
           ast_size a = ast_size (g_asteroids s i) - 1 \<and>
           hit_spawned i j s =
             spawn_asteroid (ast_x (g_asteroids s i)) (ast_y (g_asteroids s i))
               (ast_size (g_asteroids s i) - 2) s2"
proof -
  define s1 where "s1 = s\<lparr>g_asteroids := (g_asteroids s)(i := (g_asteroids s i)\<lparr>ast_alive := 0\<rparr>),
                         g_bullets := (g_bullets s)(j := (g_bullets s j)\<lparr>bul_active := 0\<rparr>)\<rparr>"
  have "\<exists>a r. spawn_asteroid (ast_x (g_asteroids s i)) (ast_y (g_asteroids s i))
           (ast_size (g_asteroids s i) - 1) s1 = s1\<lparr>g_asteroids := (g_asteroids s1)(i := a), rand_src := r\<rparr>
           \<and> ast_alive a = 1 \<and> ast_x a = ast_x (g_asteroids s i) \<and> ast_y a = ast_y (g_asteroids s i)
           \<and> ast_size a = ast_size (g_asteroids s i) - 1"
    by (rule spawn_asteroid_first) (use assms in \<open>simp_all add: s1_def\<close>)
  then obtain a r where
    sp: "spawn_asteroid (ast_x (g_asteroids s i)) (ast_y (g_asteroids s i))
           (ast_size (g_asteroids s i) - 1) s1 = s1\<lparr>g_asteroids := (g_asteroids s1)(i := a), rand_src := r\<rparr>"
    and a: "ast_alive a = 1" "ast_x a = ast_x (g_asteroids s i)" "ast_y a = ast_y (g_asteroids s i)"
      "ast_size a = ast_size (g_asteroids s i) - 1"
    by blast
  define s2 where "s2 = s\<lparr>g_asteroids := (g_asteroids s)(i := a),
                         g_bullets := (g_bullets s)(j := (g_bullets s j)\<lparr>bul_active := 0\<rparr>),
                         rand_src := r\<rparr>"
  have s12: "s1\<lparr>g_asteroids := (g_asteroids s1)(i := a), rand_src := r\<rparr> = s2"
    by (simp add: s1_def s2_def)
  have "hit_spawned i j s =
      (let s = spawn_asteroid (ast_x (g_asteroids s1 i)) (ast_y (g_asteroids s1 i))
                     (ast_size (g_asteroids s1 i) - 1) s1
           in spawn_asteroid (ast_x (g_asteroids s i)) (ast_y (g_asteroids s i))
                (ast_size (g_asteroids s i) - 1) s)"
    using assms(3) by (simp add: hit_spawned_def Let_def s1_def)
  also have "\<dots> = spawn_asteroid (ast_x (g_asteroids s2 i)) (ast_y (g_asteroids s2 i))
                (ast_size (g_asteroids s2 i) - 1) s2"
  proof -
    have "ast_x (g_asteroids s1 i) = ast_x (g_asteroids s i)" "ast_y (g_asteroids s1 i) = ast_y (g_asteroids s i)"
      "ast_size (g_asteroids s1 i) = ast_size (g_asteroids s i)"
      by (simp_all add: s1_def)
    then show ?thesis by (simp only: Let_def sp s12)
  qed
  also have "\<dots> = spawn_asteroid (ast_x (g_asteroids s i)) (ast_y (g_asteroids s i))
               (ast_size (g_asteroids s i) - 2) s2"
    by (simp add: s2_def a)
  finally show ?thesis using a s2_def by blast
qed

lemma update_asteroid_alive:
  assumes "ast_alive (g_asteroids s i) \<noteq> 0"
  shows "\<exists>m. update_asteroid i (s, c) =
           (ship_collision i (bullet_collision i (s\<lparr>g_asteroids := (g_asteroids s)(i := m)\<rparr>)), c + 1) \<and>
         ast_alive m = ast_alive (g_asteroids s i) \<and> ast_size m = ast_size (g_asteroids s i) \<and>
         ast_x m = fst (wrap_coordinates (ast_x (g_asteroids s i) + ast_vx (g_asteroids s i),
                                          ast_y (g_asteroids s i) + ast_vy (g_asteroids s i))) \<and>
         ast_y m = snd (wrap_coordinates (ast_x (g_asteroids s i) + ast_vx (g_asteroids s i),
                                          ast_y (g_asteroids s i) + ast_vy (g_asteroids s i)))"
  using assms
  apply (simp add: update_asteroid_def Let_def split_beta)
  apply (intro exI conjI)
      apply (rule refl)
     apply simp_all
  done

lemma update_asteroid_quiet:
  assumes "ast_alive (g_asteroids s i) \<noteq> 0"
    and "\<forall>j<MAX_BULLETS. bul_active (g_bullets s j) = 0"
    and "ship_alive (g_ship s) = 0 \<or> 0 < ship_invincible_timer (g_ship s)"
  shows "\<exists>m. update_asteroid i (s, c) = (s\<lparr>g_asteroids := (g_asteroids s)(i := m)\<rparr>, c + 1) \<and>
           ast_alive m = ast_alive (g_asteroids s i) \<and> ast_size m = ast_size (g_asteroids s i)"
proof -
  from update_asteroid_alive [OF assms(1), of c] obtain m where
    u: "update_asteroid i (s, c) =
           (ship_collision i (bullet_collision i (s\<lparr>g_asteroids := (g_asteroids s)(i := m)\<rparr>)), c + 1)"
    and m: "ast_alive m = ast_alive (g_asteroids s i)" "ast_size m = ast_size (g_asteroids s i)"
    by blast
  define s1 where "s1 = s\<lparr>g_asteroids := (g_asteroids s)(i := m)\<rparr>"
  have "bullet_collision i s1 = s1"
    by (rule bullet_collision_idle) (use assms(2) in \<open>simp add: s1_def\<close>)
  moreover have "ship_collision i s1 = s1"
    by (rule ship_collision_shielded) (use assms(3) in \<open>simp add: s1_def\<close>)
  ultimately have "update_asteroid i (s, c) = (s1, c + 1)"
    using u by (simp add: s1_def)
  with m show ?thesis unfolding s1_def by blast
qed

lemma hit_bullets_moved:
  defines "sb \<equiv> \<lambda>sz. fold update_bullet [0..<MAX_BULLETS] (update_ship (hit sz))"
  shows "g_asteroids (sb sz) = (\<lambda>_. asteroid0)(0 := rock 100 100 sz)"
    and "g_bullets (sb sz) = (\<lambda>_. bullet0)(0 := (shot 100 100)\<lparr>bul_lifetime := 29\<rparr>)"
    and "ship_alive (g_ship (sb sz)) = 1" and "ship_invincible_timer (g_ship (sb sz)) = 179"
    and "g_score (sb sz) = 0"
proof -
  show "g_asteroids (sb sz) = (\<lambda>_. asteroid0)(0 := rock 100 100 sz)"
    by (simp add: sb_def hit_def)
  show "ship_alive (g_ship (sb sz)) = 1" "ship_invincible_timer (g_ship (sb sz)) = 179"
    by (simp_all add: sb_def update_ship_timer hit_def game0_def respawn_ship_def)
  show "g_score (sb sz) = 0"
    by (simp add: sb_def hit_def game0_def)
  have 1: "[0..<MAX_BULLETS] = 0 # [1..<MAX_BULLETS]" by (simp add: upt_conv_Cons)
  define s1 where "s1 = update_bullet 0 (update_ship (hit sz))"
  have b1: "g_bullets s1 = (\<lambda>_. bullet0)(0 := (shot 100 100)\<lparr>bul_lifetime := 29\<rparr>)"
    by (simp add: s1_def update_bullet_def Let_def split_beta hit_def shot_def bullet0_def
        wrap_coordinates_def)
  have "fold update_bullet [1..<MAX_BULLETS] s1 = s1"
    by (rule fold_update_bullet_idle) (simp add: b1 bullet0_def)
  then have "sb sz = s1" unfolding sb_def 1 by (simp add: s1_def)
  with b1 show "g_bullets (sb sz) = (\<lambda>_. bullet0)(0 := (shot 100 100)\<lparr>bul_lifetime := 29\<rparr>)"
    by simp
qed

lemma hit_first_round:
  assumes "sz = 2 \<or> sz = 3"
  shows "\<exists>t0. update_asteroid 0 (fold update_bullet [0..<MAX_BULLETS] (update_ship (hit sz)), 0) = (t0, 1) \<and>
           hit_outcome sz t0"
proof -
  define sb where "sb = fold update_bullet [0..<MAX_BULLETS] (update_ship (hit sz))"
  note f = hit_bullets_moved [of sz, folded sb_def]
  have al: "ast_alive (g_asteroids sb 0) \<noteq> 0"
    by (simp add: f rock_def asteroid0_def)
  from update_asteroid_alive [OF al, of 0] obtain m where
    u: "update_asteroid 0 (sb, 0) =
           (ship_collision 0 (bullet_collision 0 (sb\<lparr>g_asteroids := (g_asteroids sb)(0 := m)\<rparr>)), 1)"
    and m: "ast_alive m = 1" "ast_size m = sz" "ast_x m = 100" "ast_y m = 100"
    by (auto simp: f rock_def asteroid0_def wrap_coordinates_def)
  define sb0 where "sb0 = sb\<lparr>g_asteroids := (g_asteroids sb)(0 := m)\<rparr>"
  have g0: "g_asteroids sb0 = (\<lambda>_. asteroid0)(0 := m)" by (simp add: sb0_def f)
  have b0: "g_bullets sb0 = (\<lambda>_. bullet0)(0 := (shot 100 100)\<lparr>bul_lifetime := 29\<rparr>)"
    by (simp add: sb0_def f)
  have sh0: "g_ship sb0 = g_ship sb" "g_score sb0 = 0" by (simp_all add: sb0_def f)
  have "bullet_hits sb0 0 0"
    using assms by (auto simp: bullet_hits_def g0 b0 m shot_def bullet0_def)
  then have "find (bullet_hits sb0 0) [0..<MAX_BULLETS] = Some 0"
    unfolding find_upt_Some by simp
  then have bc: "bullet_collision 0 sb0 = bullet_hit 0 0 sb0"
    by (simp add: bullet_collision_def)
  define t0 where "t0 = bullet_hit 0 0 sb0"
  have "ship_collision 0 t0 = t0"
    by (rule ship_collision_shielded) (simp add: t0_def sh0 f)
  with u have u0: "update_asteroid 0 (sb, 0) = (t0, 1)"
    by (simp add: sb0_def [symmetric] bc t0_def)
  have "\<exists>a r s2. s2 = sb0\<lparr>g_asteroids := (g_asteroids sb0)(0 := a),
                         g_bullets := (g_bullets sb0)(0 := (g_bullets sb0 0)\<lparr>bul_active := 0\<rparr>),
                         rand_src := r\<rparr> \<and>
           ast_alive a = 1 \<and> ast_x a = ast_x (g_asteroids sb0 0) \<and> ast_y a = ast_y (g_asteroids sb0 0) \<and>
           ast_size a = ast_size (g_asteroids sb0 0) - 1 \<and>
           hit_spawned 0 0 sb0 =
             spawn_asteroid (ast_x (g_asteroids sb0 0)) (ast_y (g_asteroids sb0 0))
               (ast_size (g_asteroids sb0 0) - 2) s2"
    by (rule hit_spawned_reuse) (use assms in \<open>auto simp: g0 m\<close>)
  then obtain a r s2 where
    s2: "s2 = sb0\<lparr>g_asteroids := (g_asteroids sb0)(0 := a),
                         g_bullets := (g_bullets sb0)(0 := (g_bullets sb0 0)\<lparr>bul_active := 0\<rparr>),
                         rand_src := r\<rparr>"
    and a: "ast_alive a = 1" "ast_size a = sz - 1"
    and hs: "hit_spawned 0 0 sb0 = spawn_asteroid 100 100 (sz - 2) s2"
    by (auto simp: g0 m)
  have gs2: "g_asteroids s2 = (\<lambda>_. asteroid0)(0 := a)" by (simp add: s2 g0)
  have bs2: "g_bullets s2 = (\<lambda>_. bullet0)(0 := (shot 100 100)\<lparr>bul_lifetime := 29, bul_active := 0\<rparr>)"
    by (simp add: s2 b0)
  have bul: "g_bullets (hit_spawned 0 0 sb0) = g_bullets s2" by (simp add: hs)
  have ast: "ast_alive (g_asteroids (hit_spawned 0 0 sb0) 0) = 1 \<and>
     ast_size (g_asteroids (hit_spawned 0 0 sb0) 0) = sz - 1 \<and>
     (if 2 < sz then ast_alive (g_asteroids (hit_spawned 0 0 sb0) 1) = 1 \<and>
                     ast_size (g_asteroids (hit_spawned 0 0 sb0) 1) = sz - 2
      else ast_alive (g_asteroids (hit_spawned 0 0 sb0) 1) = 0) \<and>
     (\<forall>k. 2 \<le> k \<longrightarrow> ast_alive (g_asteroids (hit_spawned 0 0 sb0) k) = 0)"
  proof (cases "2 < sz")
    case False
    then have "hit_spawned 0 0 sb0 = s2" by (simp add: hs spawn_asteroid_small)
    with False a show ?thesis by (simp add: gs2 asteroid0_def)
  next
    case True
    have "\<exists>a' r'. spawn_asteroid 100 100 (sz - 2) s2 = s2\<lparr>g_asteroids := (g_asteroids s2)(1 := a'), rand_src := r'\<rparr>
           \<and> ast_alive a' = 1 \<and> ast_x a' = 100 \<and> ast_y a' = 100 \<and> ast_size a' = sz - 2"
      by (rule spawn_asteroid_first) (use True a in \<open>simp_all add: gs2 asteroid0_def\<close>)
    then obtain a' r' where
      "hit_spawned 0 0 sb0 = s2\<lparr>g_asteroids := (g_asteroids s2)(1 := a'), rand_src := r'\<rparr>"
      and "ast_alive a' = 1" "ast_size a' = sz - 2"
      unfolding hs by blast
    with True a show ?thesis by (simp add: gs2 asteroid0_def)
  qed
  have "hit_outcome sz t0"
    unfolding hit_outcome_def t0_def bullet_hit_spawned bullet_hit_fields
    using ast by (auto simp: bul bs2 sh0 f list_all_iff shot_def bullet0_def split: if_splits)
  with u0 show ?thesis unfolding sb_def by blast
qed

lemma hit_outcome_quiet_round:
  assumes "hit_outcome sz t" and "2 < sz"
  shows "\<exists>t1. update_asteroid 1 (t, c) = (t1, c + 1) \<and> hit_outcome sz t1"
proof -
  from assms have al: "ast_alive (g_asteroids t 1) \<noteq> 0"
    and idle: "\<forall>j<MAX_BULLETS. bul_active (g_bullets t j) = 0"
    and sh: "ship_alive (g_ship t) = 0 \<or> 0 < ship_invincible_timer (g_ship t)"
    by (simp_all add: hit_outcome_def list_all_iff)
  from update_asteroid_quiet [OF al idle sh, of c] obtain m where
    u: "update_asteroid 1 (t, c) = (t\<lparr>g_asteroids := (g_asteroids t)(1 := m)\<rparr>, c + 1)"
    and m: "ast_alive m = ast_alive (g_asteroids t 1)" "ast_size m = ast_size (g_asteroids t 1)"
    by blast
  have "hit_outcome sz (t\<lparr>g_asteroids := (g_asteroids t)(1 := m)\<rparr>)"
    using assms m by (simp add: hit_outcome_def list_all_iff)
  with u show ?thesis by blast
qed

lemma hit_tick:
  assumes "sz = 2 \<or> sz = 3"
  shows "\<exists>s'. update_game (hit sz) = Some s' \<and> hit_outcome sz s'"
proof -
  define st where "st = fold update_asteroid [0..<MAX_ASTEROIDS]
     (fold update_bullet [0..<MAX_BULLETS] (update_ship (hit sz)), 0)"
  from hit_first_round [OF assms] obtain t0 where
    u0: "update_asteroid 0 (fold update_bullet [0..<MAX_BULLETS] (update_ship (hit sz)), 0) = (t0, 1)"
    and o0: "hit_outcome sz t0" by blast
  have st1: "st = fold update_asteroid [1..<MAX_ASTEROIDS] (t0, 1)"
    unfolding st_def upt_50 by (simp only: fold_simps o_apply u0)
  have "\<exists>t c. st = (t, c) \<and> c \<noteq> 0 \<and> hit_outcome sz t"
  proof (cases "2 < sz")
    case False
    with o0 have "\<forall>i\<in>set [1..<MAX_ASTEROIDS]. ast_alive (g_asteroids t0 i) = 0"
      by (auto simp: hit_outcome_def list_all_iff less_Suc_eq_le Suc_le_eq numeral_2_eq_2 le_less)
    then have "st = (t0, 1)" unfolding st1 by (rule fold_update_asteroid_dead)
    with o0 show ?thesis by simp
  next
    case True
    from hit_outcome_quiet_round [OF o0 True, of 1] obtain t1 where
      u1: "update_asteroid 1 (t0, 1) = (t1, 2)" and o1: "hit_outcome sz t1" by auto
    have 2: "[1..<MAX_ASTEROIDS] = 1 # [2..<MAX_ASTEROIDS]" by (simp add: upt_conv_Cons)
    from o1 have "\<forall>i\<in>set [2..<MAX_ASTEROIDS]. ast_alive (g_asteroids t1 i) = 0"
      by (simp add: hit_outcome_def list_all_iff)
    then have "fold update_asteroid [2..<MAX_ASTEROIDS] (t1, 2) = (t1, 2)"
      by (rule fold_update_asteroid_dead)
    then have "st = (t1, 2)" unfolding st1 2 by (simp only: fold_simps o_apply u1)
    with o1 show ?thesis by simp
  qed
  then obtain t c where "st = (t, c)" "c \<noteq> 0" "hit_outcome sz t" by blast
  with update_game_result [OF st_def] show ?thesis by simp
qed

lemma hit_outcome_count:
  assumes "hit_outcome sz t"
  shows "alive_asteroids t = (if 2 < sz then 2 else 1)"
proof -
  have 1: "[0..<MAX_ASTEROIDS] = 0 # 1 # [2..<MAX_ASTEROIDS]" by (simp add: upt_conv_Cons)
  from assms have "filter (\<lambda>i. ast_alive (g_asteroids t i) \<noteq> 0) [2..<MAX_ASTEROIDS] = []"
    by (simp add: hit_outcome_def list_all_iff filter_empty_conv)
  with assms show ?thesis
    unfolding alive_asteroids_def 1 by (simp add: hit_outcome_def split: if_splits)
qed

lemma spawn_asteroid_keeps_alive:
  assumes "ast_alive (g_asteroids s k) \<noteq> 0"
  shows "g_asteroids (spawn_asteroid x y sz s) k = g_asteroids s k"
proof (cases "1 \<le> sz")
  case False
  then show ?thesis by (simp add: spawn_asteroid_small)
next
  case sz: True
  show ?thesis
  proof (cases "find (\<lambda>i. ast_alive (g_asteroids s i) = 0) [0..<MAX_ASTEROIDS]")
    case None
    then show ?thesis by (simp add: spawn_asteroid_def)
  next
    case (Some i)
    then have "ast_alive (g_asteroids s i) = 0" unfolding find_upt_Some by blast
    with assms have "i \<noteq> k" by auto
    moreover from spawn_asteroid_slot [OF sz Some, of x y] obtain a r where
      "spawn_asteroid x y sz s = s\<lparr>g_asteroids := (g_asteroids s)(i := a), rand_src := r\<rparr>" by blast
    ultimately show ?thesis by simp
  qed
qed

text \<open>
  The general form of what the states \<open>hit 3\<close> and \<open>hit 2\<close> show: when no slot below the
  asteroid that was hit is free, its slot holds the first child after the hit, alive,
  and the score has grown by the points of the child's size.
\<close>

lemma bullet_hit_reuse:
  assumes "i < MAX_ASTEROIDS" and "\<forall>k<i. ast_alive (g_asteroids s k) \<noteq> 0"
    and "1 < ast_size (g_asteroids s i)"
  shows "g_score (bullet_hit i j s) = g_score s + (4 - (ast_size (g_asteroids s i) - 1)) * 20"
    and "ast_alive (g_asteroids (bullet_hit i j s) i) = 1"
    and "ast_size (g_asteroids (bullet_hit i j s) i) = ast_size (g_asteroids s i) - 1"
proof -
  from hit_spawned_reuse [OF assms, of j] obtain a r s2 where
    s2: "s2 = s\<lparr>g_asteroids := (g_asteroids s)(i := a),
                         g_bullets := (g_bullets s)(j := (g_bullets s j)\<lparr>bul_active := 0\<rparr>),
                         rand_src := r\<rparr>"
    and a: "ast_alive a = 1" "ast_size a = ast_size (g_asteroids s i) - 1"
    and hs: "hit_spawned i j s =
             spawn_asteroid (ast_x (g_asteroids s i)) (ast_y (g_asteroids s i))
               (ast_size (g_asteroids s i) - 2) s2"
    by blast
  have "ast_alive (g_asteroids s2 i) \<noteq> 0" by (simp add: s2 a)
  then have "g_asteroids (hit_spawned i j s) i = g_asteroids s2 i"
    unfolding hs by (rule spawn_asteroid_keeps_alive)
  then have k: "g_asteroids (hit_spawned i j s) i = a" by (simp add: s2)
  show "g_score (bullet_hit i j s) = g_score s + (4 - (ast_size (g_asteroids s i) - 1)) * 20"
    "ast_alive (g_asteroids (bullet_hit i j s) i) = 1"
    "ast_size (g_asteroids (bullet_hit i j s) i) = ast_size (g_asteroids s i) - 1"
    by (simp_all add: bullet_hit_spawned k a)
qed

text \<open>
  When two slots below the asteroid that was hit are free, the children go there, the
  slot of the asteroid is left alone, and the hit does what it was written to do: two
  children of one size less at the place of the asteroid, and \<open>(4 - size) * 20\<close> points.
  An asteroid of size 1 has no children and gives 60 points.
\<close>

lemma hit_spawned_two_below:
  assumes "k1 < k2" and "k2 < i" and "i < MAX_ASTEROIDS"
    and "ast_alive (g_asteroids s k1) = 0" and "ast_alive (g_asteroids s k2) = 0"
    and "\<forall>k<k2. k = k1 \<or> ast_alive (g_asteroids s k) \<noteq> 0"
    and "1 < ast_size (g_asteroids s i)"
  shows "\<exists>a1 a2 r.
     hit_spawned i j s =
       s\<lparr>g_asteroids := (g_asteroids s)(i := (g_asteroids s i)\<lparr>ast_alive := 0\<rparr>, k1 := a1, k2 := a2),
         g_bullets := (g_bullets s)(j := (g_bullets s j)\<lparr>bul_active := 0\<rparr>),
         rand_src := r\<rparr> \<and>
     ast_alive a1 = 1 \<and> ast_size a1 = ast_size (g_asteroids s i) - 1 \<and>
     ast_x a1 = ast_x (g_asteroids s i) \<and> ast_y a1 = ast_y (g_asteroids s i) \<and>
     ast_alive a2 = 1 \<and> ast_size a2 = ast_size (g_asteroids s i) - 1 \<and>
     ast_x a2 = ast_x (g_asteroids s i) \<and> ast_y a2 = ast_y (g_asteroids s i)"
proof -
  define x y sz where "x = ast_x (g_asteroids s i)" and "y = ast_y (g_asteroids s i)"
    and "sz = ast_size (g_asteroids s i)"
  define s1 where "s1 = s\<lparr>g_asteroids := (g_asteroids s)(i := (g_asteroids s i)\<lparr>ast_alive := 0\<rparr>),
                         g_bullets := (g_bullets s)(j := (g_bullets s j)\<lparr>bul_active := 0\<rparr>)\<rparr>"
  have ne: "k1 \<noteq> i" "k2 \<noteq> i" "k1 \<noteq> k2" using assms(1,2) by simp_all
  have r1: "ast_x (g_asteroids s1 i) = x" "ast_y (g_asteroids s1 i) = y" "ast_size (g_asteroids s1 i) = sz"
    by (simp_all add: s1_def x_def y_def sz_def)
  have "\<exists>a r. spawn_asteroid x y (sz - 1) s1 = s1\<lparr>g_asteroids := (g_asteroids s1)(k1 := a), rand_src := r\<rparr>
           \<and> ast_alive a = 1 \<and> ast_x a = x \<and> ast_y a = y \<and> ast_size a = sz - 1"
  proof (rule spawn_asteroid_first)
    show "1 \<le> sz - 1" using assms(7) by (simp add: sz_def)
    show "k1 < MAX_ASTEROIDS" using assms(1-3) by simp
    show "ast_alive (g_asteroids s1 k1) = 0" using assms(4) ne by (simp add: s1_def)
    show "\<forall>k<k1. ast_alive (g_asteroids s1 k) \<noteq> 0"
    proof (intro allI impI)
      fix k assume k: "k < k1"
      with assms(1) have "k < k2" "k \<noteq> k1" by simp_all
      with assms(6) have "ast_alive (g_asteroids s k) \<noteq> 0" by blast
      moreover from k assms(1,2) have "k \<noteq> i" by simp
      ultimately show "ast_alive (g_asteroids s1 k) \<noteq> 0" by (simp add: s1_def)
    qed
  qed
  then obtain a1 r1' where
    sp1: "spawn_asteroid x y (sz - 1) s1 = s1\<lparr>g_asteroids := (g_asteroids s1)(k1 := a1), rand_src := r1'\<rparr>"
    and a1: "ast_alive a1 = 1" "ast_x a1 = x" "ast_y a1 = y" "ast_size a1 = sz - 1"
    by blast
  define s2 where "s2 = s1\<lparr>g_asteroids := (g_asteroids s1)(k1 := a1), rand_src := r1'\<rparr>"
  have r2: "ast_x (g_asteroids s2 i) = x" "ast_y (g_asteroids s2 i) = y" "ast_size (g_asteroids s2 i) = sz"
    using ne by (simp_all add: s2_def r1)
  have "\<exists>a r. spawn_asteroid x y (sz - 1) s2 = s2\<lparr>g_asteroids := (g_asteroids s2)(k2 := a), rand_src := r\<rparr>
           \<and> ast_alive a = 1 \<and> ast_x a = x \<and> ast_y a = y \<and> ast_size a = sz - 1"
  proof (rule spawn_asteroid_first)
    show "1 \<le> sz - 1" using assms(7) by (simp add: sz_def)
    show "k2 < MAX_ASTEROIDS" using assms(2,3) by simp
    show "ast_alive (g_asteroids s2 k2) = 0" using assms(5) ne by (simp add: s2_def s1_def)
    show "\<forall>k<k2. ast_alive (g_asteroids s2 k) \<noteq> 0"
    proof (intro allI impI)
      fix k assume k: "k < k2"
      with assms(2) have ki: "k \<noteq> i" by simp
      show "ast_alive (g_asteroids s2 k) \<noteq> 0"
      proof (cases "k = k1")
        case True
        with a1(1) show ?thesis by (simp add: s2_def)
      next
        case False
        with k assms(6) have "ast_alive (g_asteroids s k) \<noteq> 0" by blast
        with False ki show ?thesis by (simp add: s2_def s1_def)
      qed
    qed
  qed
  then obtain a2 r2' where
    sp2: "spawn_asteroid x y (sz - 1) s2 = s2\<lparr>g_asteroids := (g_asteroids s2)(k2 := a2), rand_src := r2'\<rparr>"
    and a2: "ast_alive a2 = 1" "ast_x a2 = x" "ast_y a2 = y" "ast_size a2 = sz - 1"
    by blast
  have "hit_spawned i j s =
      (let s = spawn_asteroid (ast_x (g_asteroids s1 i)) (ast_y (g_asteroids s1 i))
                     (ast_size (g_asteroids s1 i) - 1) s1
           in spawn_asteroid (ast_x (g_asteroids s i)) (ast_y (g_asteroids s i))
                (ast_size (g_asteroids s i) - 1) s)"
    using assms(7) by (simp add: hit_spawned_def Let_def s1_def)
  also have "\<dots> = spawn_asteroid x y (sz - 1) s2"
    by (simp only: Let_def r1 sp1 s2_def [symmetric] r2)
  also have "\<dots> = s\<lparr>g_asteroids := (g_asteroids s)(i := (g_asteroids s i)\<lparr>ast_alive := 0\<rparr>, k1 := a1, k2 := a2),
         g_bullets := (g_bullets s)(j := (g_bullets s j)\<lparr>bul_active := 0\<rparr>),
         rand_src := r2'\<rparr>"
    unfolding sp2 by (simp add: s2_def s1_def)
  finally show ?thesis using a1 a2 unfolding x_def y_def sz_def by blast
qed

lemma bullet_hit_two_below:
  assumes "k1 < k2" and "k2 < i" and "i < MAX_ASTEROIDS"
    and "ast_alive (g_asteroids s k1) = 0" and "ast_alive (g_asteroids s k2) = 0"
    and "\<forall>k<k2. k = k1 \<or> ast_alive (g_asteroids s k) \<noteq> 0"
    and "1 < ast_size (g_asteroids s i)"
  shows "g_score (bullet_hit i j s) = g_score s + (4 - ast_size (g_asteroids s i)) * 20"
    and "ast_alive (g_asteroids (bullet_hit i j s) i) = 0"
    and "ast_alive (g_asteroids (bullet_hit i j s) k1) = 1 \<and>
         ast_size (g_asteroids (bullet_hit i j s) k1) = ast_size (g_asteroids s i) - 1"
    and "ast_alive (g_asteroids (bullet_hit i j s) k2) = 1 \<and>
         ast_size (g_asteroids (bullet_hit i j s) k2) = ast_size (g_asteroids s i) - 1"
proof -
  from hit_spawned_two_below [OF assms, of j] obtain a1 a2 r where
    h: "hit_spawned i j s =
       s\<lparr>g_asteroids := (g_asteroids s)(i := (g_asteroids s i)\<lparr>ast_alive := 0\<rparr>, k1 := a1, k2 := a2),
         g_bullets := (g_bullets s)(j := (g_bullets s j)\<lparr>bul_active := 0\<rparr>),
         rand_src := r\<rparr>"
    and a: "ast_alive a1 = 1" "ast_size a1 = ast_size (g_asteroids s i) - 1"
      "ast_alive a2 = 1" "ast_size a2 = ast_size (g_asteroids s i) - 1"
    by blast
  have ne: "k1 \<noteq> i" "k2 \<noteq> i" "k1 \<noteq> k2" using assms(1,2) by simp_all
  show "g_score (bullet_hit i j s) = g_score s + (4 - ast_size (g_asteroids s i)) * 20"
    using ne by (simp add: bullet_hit_spawned h)
  show "ast_alive (g_asteroids (bullet_hit i j s) i) = 0"
    using ne by (simp add: bullet_hit_spawned h)
  show "ast_alive (g_asteroids (bullet_hit i j s) k1) = 1 \<and>
         ast_size (g_asteroids (bullet_hit i j s) k1) = ast_size (g_asteroids s i) - 1"
    using ne a by (simp add: bullet_hit_spawned h)
  show "ast_alive (g_asteroids (bullet_hit i j s) k2) = 1 \<and>
         ast_size (g_asteroids (bullet_hit i j s) k2) = ast_size (g_asteroids s i) - 1"
    using ne a by (simp add: bullet_hit_spawned h)
qed

lemma bullet_hit_small:
  assumes "ast_size (g_asteroids s i) = 1"
  shows "g_score (bullet_hit i j s) = g_score s + 60"
    and "g_asteroids (bullet_hit i j s) = (g_asteroids s)(i := (g_asteroids s i)\<lparr>ast_alive := 0\<rparr>)"
  using assms by (simp_all add: bullet_hit_spawned hit_spawned_def)

text \<open>
  Claim C2 says that a hit on an asteroid of size \<open>s\<close> adds \<open>(4 - s) * 20\<close> to the
  score. The code computes the score from \<^verbatim>\<open>g_asteroids[i].size\<close> after the two calls
  of \<^verbatim>\<open>spawn_asteroid\<close>, and the first call has written the first child into slot \<open>i\<close>
  when no slot below \<open>i\<close> is free. Run on the states \<open>hit 3\<close> and \<open>hit 2\<close>: the hit on the
  asteroid of size 3 adds 40, not 20, and the hit on the asteroid of size 2 adds 60,
  not 40.
\<close>

theorem hit_score_of_child:
  "ast_alive (g_asteroids (hit 3) 0) = 1 \<and> ast_size (g_asteroids (hit 3) 0) = 3 \<and>
   bul_active (g_bullets (hit 3) 0) = 1 \<and> g_score (hit 3) = 0 \<and>
   (\<exists>s'. update_game (hit 3) = Some s' \<and> g_score s' = 40) \<and>
   ast_alive (g_asteroids (hit 2) 0) = 1 \<and> ast_size (g_asteroids (hit 2) 0) = 2 \<and>
   bul_active (g_bullets (hit 2) 0) = 1 \<and> g_score (hit 2) = 0 \<and>
   (\<exists>s'. update_game (hit 2) = Some s' \<and> g_score s' = 60)"
proof -
  from hit_tick [of 3] obtain s3 where "update_game (hit 3) = Some s3" "g_score s3 = 40"
    by (auto simp: hit_outcome_def)
  moreover from hit_tick [of 2] obtain s2 where "update_game (hit 2) = Some s2" "g_score s2 = 60"
    by (auto simp: hit_outcome_def)
  ultimately show ?thesis
    by (auto simp: hit_def game0_def rock_def shot_def asteroid0_def bullet0_def)
qed

text \<open>
  Claim C3 says that a destroyed asteroid of size above 1 leaves two asteroids of one
  size less. With the first child written into the slot of the asteroid that was hit,
  the second call of \<^verbatim>\<open>spawn_asteroid\<close> takes its size from that child. Run on the
  states \<open>hit 3\<close> and \<open>hit 2\<close>, where 49 slots are free: the asteroid of size 3 leaves
  one asteroid of size 2 and one of size 1, and the asteroid of size 2 leaves a single
  asteroid of size 1.
\<close>

theorem hit_children_of_child:
  "alive_asteroids (hit 3) = 1 \<and> ast_size (g_asteroids (hit 3) 0) = 3 \<and>
   (\<exists>s'. update_game (hit 3) = Some s' \<and> alive_asteroids s' = 2 \<and>
      ast_alive (g_asteroids s' 0) = 1 \<and> ast_size (g_asteroids s' 0) = 2 \<and>
      ast_alive (g_asteroids s' 1) = 1 \<and> ast_size (g_asteroids s' 1) = 1) \<and>
   alive_asteroids (hit 2) = 1 \<and> ast_size (g_asteroids (hit 2) 0) = 2 \<and>
   (\<exists>s'. update_game (hit 2) = Some s' \<and> alive_asteroids s' = 1 \<and>
      ast_alive (g_asteroids s' 0) = 1 \<and> ast_size (g_asteroids s' 0) = 1)"
proof -
  have 1: "[0..<MAX_ASTEROIDS] = 0 # [1..<MAX_ASTEROIDS]" by (simp add: upt_conv_Cons)
  have c: "alive_asteroids (hit sz) = 1" "ast_size (g_asteroids (hit sz) 0) = sz" for sz
    unfolding alive_asteroids_def 1
    by (simp_all add: hit_def rock_def asteroid0_def filter_empty_conv)
  from hit_tick [of 3] obtain s3 where s3: "update_game (hit 3) = Some s3" "hit_outcome 3 s3"
    by auto
  from hit_tick [of 2] obtain s2 where s2: "update_game (hit 2) = Some s2" "hit_outcome 2 s2"
    by auto
  from s3 hit_outcome_count [OF s3(2)] have
    "\<exists>s'. update_game (hit 3) = Some s' \<and> alive_asteroids s' = 2 \<and>
      ast_alive (g_asteroids s' 0) = 1 \<and> ast_size (g_asteroids s' 0) = 2 \<and>
      ast_alive (g_asteroids s' 1) = 1 \<and> ast_size (g_asteroids s' 1) = 1"
    by (simp add: hit_outcome_def)
  moreover from s2 hit_outcome_count [OF s2(2)] have
    "\<exists>s'. update_game (hit 2) = Some s' \<and> alive_asteroids s' = 1 \<and>
      ast_alive (g_asteroids s' 0) = 1 \<and> ast_size (g_asteroids s' 0) = 1"
    by (simp add: hit_outcome_def)
  ultimately show ?thesis using c [of 3] c [of 2] by blast
qed

end
